theory Spec2Isabelle
  imports Complex_Main
begin

section \<open>Scalars: the values a C++ double can hold\<close>

text \<open>
  The simulation computes in \<^verbatim>\<open>double\<close>. A value is a finite number, one of the two
  infinities, or not-a-number. The arithmetic below follows IEEE 754 on the special
  values (not-a-number is absorbing, \<open>\<infinity> - \<infinity>\<close> and \<open>0 * \<infinity>\<close> are not-a-number,
  every comparison with not-a-number is false) and on overflow: the largest double is
  \<open>2 ^ 1024 - 2 ^ 971\<close>, and an operation on finite values whose exact result has a
  magnitude of \<open>2 ^ 1024 - 2 ^ 970\<close> or more returns the infinity of its sign, as
  round-to-nearest does. Below that magnitude the result is exact: rounding and the sign
  of zero are not represented, so an equation proved here holds in the program up to
  floating-point rounding. A finite value of that magnitude or more is no double; no
  operation returns one.
\<close>

datatype double = Fin real | PosInf | NegInf | NaN

definition overflowThreshold :: real where
  "overflowThreshold = 2 ^ 1024 - 2 ^ 970"

text \<open>The value of an operation on finite operands whose exact result is \<open>r\<close>.\<close>

definition finiteResult :: "real \<Rightarrow> double" where
  "finiteResult r =
     (if overflowThreshold \<le> r then PosInf
      else if r \<le> - overflowThreshold then NegInf
      else Fin r)"

instantiation double :: "{zero, one, plus, minus, uminus, times, inverse, abs, ord}"
begin

definition zero_double :: double where
  "zero_double = Fin 0"

definition one_double :: double where
  "one_double = Fin 1"

fun plus_double :: "double \<Rightarrow> double \<Rightarrow> double" where
  "plus_double NaN y = NaN"
| "plus_double x NaN = NaN"
| "plus_double PosInf NegInf = NaN"
| "plus_double NegInf PosInf = NaN"
| "plus_double PosInf y = PosInf"
| "plus_double NegInf y = NegInf"
| "plus_double x PosInf = PosInf"
| "plus_double x NegInf = NegInf"
| "plus_double (Fin a) (Fin b) = finiteResult (a + b)"

fun uminus_double :: "double \<Rightarrow> double" where
  "uminus_double (Fin a) = Fin (- a)"
| "uminus_double PosInf = NegInf"
| "uminus_double NegInf = PosInf"
| "uminus_double NaN = NaN"

definition minus_double :: "double \<Rightarrow> double \<Rightarrow> double" where
  "minus_double x y = x + (- y)"

fun times_double :: "double \<Rightarrow> double \<Rightarrow> double" where
  "times_double NaN y = NaN"
| "times_double x NaN = NaN"
| "times_double (Fin a) (Fin b) = finiteResult (a * b)"
| "times_double (Fin a) PosInf = (if a = 0 then NaN else if 0 < a then PosInf else NegInf)"
| "times_double (Fin a) NegInf = (if a = 0 then NaN else if 0 < a then NegInf else PosInf)"
| "times_double PosInf (Fin b) = (if b = 0 then NaN else if 0 < b then PosInf else NegInf)"
| "times_double NegInf (Fin b) = (if b = 0 then NaN else if 0 < b then NegInf else PosInf)"
| "times_double PosInf PosInf = PosInf"
| "times_double PosInf NegInf = NegInf"
| "times_double NegInf PosInf = NegInf"
| "times_double NegInf NegInf = PosInf"

fun divide_double :: "double \<Rightarrow> double \<Rightarrow> double" where
  "divide_double NaN y = NaN"
| "divide_double x NaN = NaN"
| "divide_double (Fin a) (Fin b) =
     (if b = 0 then (if a = 0 then NaN else if 0 < a then PosInf else NegInf)
      else finiteResult (a / b))"
| "divide_double (Fin a) PosInf = Fin 0"
| "divide_double (Fin a) NegInf = Fin 0"
| "divide_double PosInf (Fin b) = (if 0 \<le> b then PosInf else NegInf)"
| "divide_double NegInf (Fin b) = (if 0 \<le> b then NegInf else PosInf)"
| "divide_double PosInf PosInf = NaN"
| "divide_double PosInf NegInf = NaN"
| "divide_double NegInf PosInf = NaN"
| "divide_double NegInf NegInf = NaN"

fun inverse_double :: "double \<Rightarrow> double" where
  "inverse_double (Fin a) = (if a = 0 then PosInf else finiteResult (1 / a))"
| "inverse_double PosInf = Fin 0"
| "inverse_double NegInf = Fin 0"
| "inverse_double NaN = NaN"

fun abs_double :: "double \<Rightarrow> double" where
  "abs_double (Fin a) = Fin \<bar>a\<bar>"
| "abs_double PosInf = PosInf"
| "abs_double NegInf = PosInf"
| "abs_double NaN = NaN"

fun less_double :: "double \<Rightarrow> double \<Rightarrow> bool" where
  "less_double NaN y = False"
| "less_double x NaN = False"
| "less_double (Fin a) (Fin b) = (a < b)"
| "less_double (Fin a) PosInf = True"
| "less_double (Fin a) NegInf = False"
| "less_double PosInf y = False"
| "less_double NegInf NegInf = False"
| "less_double NegInf y = True"

fun less_eq_double :: "double \<Rightarrow> double \<Rightarrow> bool" where
  "less_eq_double NaN y = False"
| "less_eq_double x NaN = False"
| "less_eq_double (Fin a) (Fin b) = (a \<le> b)"
| "less_eq_double (Fin a) PosInf = True"
| "less_eq_double (Fin a) NegInf = False"
| "less_eq_double PosInf PosInf = True"
| "less_eq_double PosInf y = False"
| "less_eq_double NegInf y = True"

instance ..

end

text \<open>\<^verbatim>\<open>std::isfinite\<close>: neither an infinity nor not-a-number.\<close>

fun isfinite :: "double \<Rightarrow> bool" where
  "isfinite (Fin a) = True"
| "isfinite PosInf = False"
| "isfinite NegInf = False"
| "isfinite NaN = False"

section \<open>Failures\<close>

text \<open>
  \<^verbatim>\<open>SURGSIM_ASSERT\<close> throws an assertion failure; Eigen asserts on an index or a block
  outside an object and on operands of different sizes; a null \<^verbatim>\<open>shared_ptr\<close> cannot be
  dereferenced. Each is a value of the model: a function that can fail returns
  \<open>error + 'a\<close>, with \<open>Inl\<close> for the failure.
\<close>

datatype error = AssertionFailure | EigenAssert | NullPointer

definition bindE :: "error + 'a \<Rightarrow> ('a \<Rightarrow> error + 'b) \<Rightarrow> error + 'b" where
  "bindE m f = (case m of Inl e \<Rightarrow> Inl e | Inr x \<Rightarrow> f x)"

text \<open>A loop over a container whose body can fail: it stops at the first failure.\<close>

fun foldE :: "('a \<Rightarrow> 'b \<Rightarrow> error + 'b) \<Rightarrow> 'a list \<Rightarrow> 'b \<Rightarrow> error + 'b" where
  "foldE f [] acc = Inr acc"
| "foldE f (x # xs) acc = bindE (f x acc) (foldE f xs)"

section \<open>Dense vectors and matrices (Eigen)\<close>

text \<open>
  A dynamic vector is its size and its coefficients; a dynamic matrix its two dimensions
  and its coefficients. Coefficients at indices outside the object are never read by a
  function that succeeded: every access checks its range first, as Eigen's assertions do.
\<close>

record vector =
  vsize :: nat
  vcoeff :: "nat \<Rightarrow> double"

record matrix =
  rows :: nat
  cols :: nat
  mcoeff :: "nat \<Rightarrow> nat \<Rightarrow> double"

text \<open>\<^verbatim>\<open>Vector3d(x, y, z)\<close> and \<^verbatim>\<open>Vector::Zero(n)\<close>.\<close>

definition Vector3d :: "double \<Rightarrow> double \<Rightarrow> double \<Rightarrow> vector" where
  "Vector3d x y z = \<lparr>vsize = 3, vcoeff = (\<lambda>i. if i = 0 then x else if i = 1 then y else z)\<rparr>"

definition vzero :: "nat \<Rightarrow> vector" where
  "vzero n = \<lparr>vsize = n, vcoeff = (\<lambda>i. 0)\<rparr>"

text \<open>\<^verbatim>\<open>v * a\<close>: every coefficient times the scalar.\<close>

definition vscale :: "vector \<Rightarrow> double \<Rightarrow> vector" where
  "vscale v a = v\<lparr>vcoeff := (\<lambda>i. vcoeff v i * a)\<rparr>"

text \<open>\<^verbatim>\<open>x += y\<close> and \<^verbatim>\<open>x -= y\<close> on vectors: the sizes must agree.\<close>

definition vadd_assign :: "vector \<Rightarrow> vector \<Rightarrow> error + vector" where
  "vadd_assign x y =
     (if vsize y = vsize x then Inr (x\<lparr>vcoeff := (\<lambda>i. vcoeff x i + vcoeff y i)\<rparr>)
      else Inl EigenAssert)"

definition vsub_assign :: "vector \<Rightarrow> vector \<Rightarrow> error + vector" where
  "vsub_assign x y =
     (if vsize y = vsize x then Inr (x\<lparr>vcoeff := (\<lambda>i. vcoeff x i - vcoeff y i)\<rparr>)
      else Inl EigenAssert)"

text \<open>\<^verbatim>\<open>v[i] = a\<close>.\<close>

definition vset :: "vector \<Rightarrow> nat \<Rightarrow> double \<Rightarrow> error + vector" where
  "vset v i a =
     (if i < vsize v then Inr (v\<lparr>vcoeff := (vcoeff v)(i := a)\<rparr>) else Inl EigenAssert)"

subsection \<open>The helpers of Vector.h\<close>

text \<open>
  \<^verbatim>\<open>vector->segment(blockSize * blockId, blockSize) += subVector\<close>.
\<close>

definition addSubVector :: "vector \<Rightarrow> nat \<Rightarrow> nat \<Rightarrow> vector \<Rightarrow> error + vector" where
  "addSubVector subVector blockId blockSize v =
     (if blockSize * blockId + blockSize \<le> vsize v \<and> vsize subVector = blockSize
      then Inr (v\<lparr>vcoeff := (\<lambda>i.
             if blockSize * blockId \<le> i \<and> i < blockSize * blockId + blockSize
             then vcoeff v i + vcoeff subVector (i - blockSize * blockId)
             else vcoeff v i)\<rparr>)
      else Inl EigenAssert)"

text \<open>\<^verbatim>\<open>vector->segment(blockSize * blockId, blockSize) = subVector\<close>.\<close>

definition setSubVector :: "vector \<Rightarrow> nat \<Rightarrow> nat \<Rightarrow> vector \<Rightarrow> error + vector" where
  "setSubVector subVector blockId blockSize v =
     (if blockSize * blockId + blockSize \<le> vsize v \<and> vsize subVector = blockSize
      then Inr (v\<lparr>vcoeff := (\<lambda>i.
             if blockSize * blockId \<le> i \<and> i < blockSize * blockId + blockSize
             then vcoeff subVector (i - blockSize * blockId)
             else vcoeff v i)\<rparr>)
      else Inl EigenAssert)"

text \<open>\<^verbatim>\<open>vector.segment(blockSize * blockId, blockSize)\<close>, read.\<close>

definition getSubVector :: "vector \<Rightarrow> nat \<Rightarrow> nat \<Rightarrow> error + vector" where
  "getSubVector v blockId blockSize =
     (if blockSize * blockId + blockSize \<le> vsize v
      then Inr \<lparr>vsize = blockSize, vcoeff = (\<lambda>i. vcoeff v (blockSize * blockId + i))\<rparr>
      else Inl EigenAssert)"

text \<open>
  The two overloads that take a list of block ids: block \<open>k\<close> of the small vector
  corresponds to block \<open>blockIds[k]\<close> of the large one. The loops run over
  \<open>block = 0 .. numBlocks - 1\<close>.
\<close>

fun addSubVectorBlocks_loop ::
  "vector \<Rightarrow> nat list \<Rightarrow> nat \<Rightarrow> nat \<Rightarrow> vector \<Rightarrow> error + vector" where
  "addSubVectorBlocks_loop subVector [] blockSize block v = Inr v"
| "addSubVectorBlocks_loop subVector (blockId # ids) blockSize block v =
     bindE (getSubVector subVector block blockSize) (\<lambda>s.
     bindE (addSubVector s blockId blockSize v)
       (addSubVectorBlocks_loop subVector ids blockSize (Suc block)))"

definition addSubVectorBlocks :: "vector \<Rightarrow> nat list \<Rightarrow> nat \<Rightarrow> vector \<Rightarrow> error + vector" where
  "addSubVectorBlocks subVector blockIds blockSize v =
     addSubVectorBlocks_loop subVector blockIds blockSize 0 v"

fun getSubVectorBlocks_loop ::
  "vector \<Rightarrow> nat list \<Rightarrow> nat \<Rightarrow> nat \<Rightarrow> vector \<Rightarrow> error + vector" where
  "getSubVectorBlocks_loop v [] blockSize block subVector = Inr subVector"
| "getSubVectorBlocks_loop v (blockId # ids) blockSize block subVector =
     bindE (getSubVector v blockId blockSize) (\<lambda>s.
     bindE (setSubVector s block blockSize subVector)
       (getSubVectorBlocks_loop v ids blockSize (Suc block)))"

definition getSubVectorBlocks :: "vector \<Rightarrow> nat list \<Rightarrow> nat \<Rightarrow> vector \<Rightarrow> error + vector" where
  "getSubVectorBlocks v blockIds blockSize subVector =
     getSubVectorBlocks_loop v blockIds blockSize 0 subVector"

text \<open>
  \<^verbatim>\<open>resize(v, size, zeroOut)\<close> (called \<^verbatim>\<open>resizeVector\<close> at its uses). Eigen leaves
  the coefficients of a resized vector uninitialised: the model keeps the coefficients
  the buffer had, which are arbitrary wherever the buffer is.
\<close>

definition resizeVector :: "vector \<Rightarrow> nat \<Rightarrow> bool \<Rightarrow> vector" where
  "resizeVector v n zeroOut =
     (let v1 = (if vsize v \<noteq> n then v\<lparr>vsize := n\<rparr> else v)
      in if zeroOut then v1\<lparr>vcoeff := (\<lambda>i. 0)\<rparr> else v1)"

text \<open>
  Modelled from the spec: \<^verbatim>\<open>resizeMatrix\<close> of Matrix.h, which is not among the
  sources; it is the matrix counterpart of the vector helper above (resize if the
  dimensions differ, then zero out on request).
\<close>

definition resizeMatrix :: "matrix \<Rightarrow> nat \<Rightarrow> nat \<Rightarrow> bool \<Rightarrow> matrix" where
  "resizeMatrix m r c zeroOut =
     (let m1 = (if rows m \<noteq> r \<or> cols m \<noteq> c then m\<lparr>rows := r, cols := c\<rparr> else m)
      in if zeroOut then m1\<lparr>mcoeff := (\<lambda>i j. 0)\<rparr> else m1)"

subsection \<open>Matrix operations used by the assembly\<close>

text \<open>\<^verbatim>\<open>a * v\<close>, \<^verbatim>\<open>x.cwiseProduct(y)\<close> and \<^verbatim>\<open>m * a\<close>.\<close>

definition smulv :: "double \<Rightarrow> vector \<Rightarrow> vector" where
  "smulv a v = v\<lparr>vcoeff := (\<lambda>i. a * vcoeff v i)\<rparr>"

definition cwiseProduct :: "vector \<Rightarrow> vector \<Rightarrow> error + vector" where
  "cwiseProduct x y =
     (if vsize y = vsize x then Inr (x\<lparr>vcoeff := (\<lambda>i. vcoeff x i * vcoeff y i)\<rparr>)
      else Inl EigenAssert)"

definition mscale :: "matrix \<Rightarrow> double \<Rightarrow> matrix" where
  "mscale m a = m\<lparr>mcoeff := (\<lambda>i j. mcoeff m i j * a)\<rparr>"

text \<open>\<^verbatim>\<open>m += k\<close>: the dimensions must agree.\<close>

definition madd_assign :: "matrix \<Rightarrow> matrix \<Rightarrow> error + matrix" where
  "madd_assign m k =
     (if rows k = rows m \<and> cols k = cols m
      then Inr (m\<lparr>mcoeff := (\<lambda>i j. mcoeff m i j + mcoeff k i j)\<rparr>)
      else Inl EigenAssert)"

text \<open>The sum of the first \<open>n\<close> products \<open>a k * b k\<close>.\<close>

fun dotn :: "(nat \<Rightarrow> double) \<Rightarrow> (nat \<Rightarrow> double) \<Rightarrow> nat \<Rightarrow> double" where
  "dotn a b 0 = 0"
| "dotn a b (Suc n) = dotn a b n + a n * b n"

text \<open>\<^verbatim>\<open>m * v\<close>: the vector has as many coefficients as the matrix has columns.\<close>

definition mulMatVec :: "matrix \<Rightarrow> vector \<Rightarrow> error + vector" where
  "mulMatVec m v =
     (if vsize v = cols m
      then Inr \<lparr>vsize = rows m, vcoeff = (\<lambda>i. dotn (mcoeff m i) (vcoeff v) (cols m))\<rparr>
      else Inl EigenAssert)"

text \<open>
  \<^verbatim>\<open>m.block(startRow, startCol, blockRows, blockCols).setZero()\<close> and \<^verbatim>\<open>m(i, j) = a\<close>.
\<close>

definition blockSetZero :: "matrix \<Rightarrow> nat \<Rightarrow> nat \<Rightarrow> nat \<Rightarrow> nat \<Rightarrow> error + matrix" where
  "blockSetZero m startRow startCol blockRows blockCols =
     (if startRow + blockRows \<le> rows m \<and> startCol + blockCols \<le> cols m
      then Inr (m\<lparr>mcoeff := (\<lambda>i j.
             if startRow \<le> i \<and> i < startRow + blockRows \<and>
                startCol \<le> j \<and> j < startCol + blockCols
             then 0 else mcoeff m i j)\<rparr>)
      else Inl EigenAssert)"

definition mset :: "matrix \<Rightarrow> nat \<Rightarrow> nat \<Rightarrow> double \<Rightarrow> error + matrix" where
  "mset m i j a =
     (if i < rows m \<and> j < cols m
      then Inr (m\<lparr>mcoeff := (\<lambda>r c. if r = i \<and> c = j then a else mcoeff m r c)\<rparr>)
      else Inl EigenAssert)"

text \<open>
  \<^verbatim>\<open>m.diagonal()\<close> is a view of the matrix: \<open>diagonal\<close> reads it, and \<open>setDiagonal\<close>
  writes a vector of the same size back through it.
\<close>

definition diagonal :: "matrix \<Rightarrow> vector" where
  "diagonal m = \<lparr>vsize = min (rows m) (cols m), vcoeff = (\<lambda>i. mcoeff m i i)\<rparr>"

definition setDiagonal :: "matrix \<Rightarrow> vector \<Rightarrow> matrix" where
  "setDiagonal m d =
     m\<lparr>mcoeff := (\<lambda>i j. if i = j \<and> i < vsize d then vcoeff d i else mcoeff m i j)\<rparr>"

section \<open>The state of a deformable body\<close>

text \<open>
  Modelled from the spec: \<^verbatim>\<open>DeformableRepresentationState\<close>, whose header is not among
  the sources. It holds the positions, velocities and accelerations of all nodes, of
  \<open>numDof = numNodes * dofPerNode\<close> entries each, and the indices of the degrees of
  freedom under a boundary condition, here in the order in which the loops of the body
  visit them.
\<close>

record state =
  positions :: vector
  velocities :: vector
  accelerations :: vector
  boundaryConditions :: "nat list"
  numNodes :: nat
  numDofPerNode :: nat

definition getNumDof :: "state \<Rightarrow> nat" where
  "getNumDof st = numDofPerNode st * numNodes st"

definition getNumNodes :: "state \<Rightarrow> nat" where
  "getNumNodes st = numNodes st"

text \<open>
  Modelled from the spec: \<^verbatim>\<open>SurgSim::Math::isValid\<close> of Valid.h, which is not among
  the sources: a vector is valid when all its entries are finite.
\<close>

fun allFinite :: "(nat \<Rightarrow> double) \<Rightarrow> nat \<Rightarrow> bool" where
  "allFinite f 0 = True"
| "allFinite f (Suc n) = (allFinite f n \<and> isfinite (f n))"

definition isValid :: "vector \<Rightarrow> bool" where
  "isValid v = allFinite (vcoeff v) (vsize v)"

section \<open>Springs\<close>

text \<open>
  \<^verbatim>\<open>Spring\<close> is an abstract class whose header is not among the sources; the body calls
  five of its virtual methods, with the argument lists below. A spring object is the
  record of its methods. Each receives the buffer it adds into and returns it updated,
  or fails.
  \<^item> \<open>addForce state F scale\<close>
  \<^item> \<open>addDamping state D scale\<close> and \<open>addStiffness state K scale\<close>
  \<^item> \<open>addFDK state F D K\<close>
  \<^item> \<open>addMatVec state alphaD alphaK x F\<close>
\<close>

record spring =
  addForce :: "state \<Rightarrow> vector \<Rightarrow> double \<Rightarrow> error + vector"
  addDamping :: "state \<Rightarrow> matrix \<Rightarrow> double \<Rightarrow> error + matrix"
  addStiffness :: "state \<Rightarrow> matrix \<Rightarrow> double \<Rightarrow> error + matrix"
  addFDK :: "state \<Rightarrow> vector \<Rightarrow> matrix \<Rightarrow> matrix \<Rightarrow> error + (vector \<times> matrix \<times> matrix)"
  addMatVec :: "state \<Rightarrow> double \<Rightarrow> double \<Rightarrow> vector \<Rightarrow> vector \<Rightarrow> error + vector"

section \<open>The mass-spring body\<close>

text \<open>
  \<^verbatim>\<open>MassSpringRepresentation\<close> with the members it inherits. The five states are held
  through shared pointers: a pointer is an address or null, and \<open>store\<close> maps an address
  to the state object it designates, so that swapping two pointers and copying one state
  into another are different operations. A \<^verbatim>\<open>Mass\<close> is used through \<^verbatim>\<open>getMass()\<close>
  only and is represented by that value. \<open>m_M\<close> is a diagonal matrix, held as its
  diagonal. The solver object is of a type \<open>'s\<close> left open.
\<close>

type_synonym addr = nat

record 's body =
  m_isActive :: bool
  m_isGravityEnabled :: bool
  m_gravity :: vector
  m_numDof :: nat
  m_masses :: "double list"
  m_springs :: "spring list"
  massCoefficient :: double
  stiffnessCoefficient :: double
  m_odeSolver :: "'s option"
  m_initialState :: "addr option"
  m_previousState :: "addr option"
  m_currentState :: "addr option"
  m_newState :: "addr option"
  m_finalState :: "addr option"
  store :: "addr \<Rightarrow> state"
  m_f :: vector
  m_M :: vector
  m_D :: matrix
  m_K :: matrix

definition getNumMasses :: "'s body \<Rightarrow> nat" where
  "getNumMasses b = length (m_masses b)"

definition getNumSprings :: "'s body \<Rightarrow> nat" where
  "getNumSprings b = length (m_springs b)"

text \<open>\<^verbatim>\<open>getMass(nodeId)->getMass()\<close>: the accessor asserts its index.\<close>

definition getMass :: "'s body \<Rightarrow> nat \<Rightarrow> error + double" where
  "getMass b nodeId =
     (if nodeId < getNumMasses b then Inr (m_masses b ! nodeId) else Inl AssertionFailure)"

definition isActive :: "'s body \<Rightarrow> bool" where
  "isActive b = m_isActive b"

text \<open>
  Modelled from the spec: \<^verbatim>\<open>Representation::setIsActive\<close>, declared in
  Representation.h and defined outside the sources: it sets the flag that
  \<^verbatim>\<open>isActive()\<close> returns.
\<close>

definition setIsActive :: "bool \<Rightarrow> 's body \<Rightarrow> 's body" where
  "setIsActive a b = b\<lparr>m_isActive := a\<rparr>"

subsection \<open>The per-tick entry points\<close>

text \<open>
  Modelled from the spec: \<^verbatim>\<open>DeformableRepresentation::beforeUpdate\<close>, which is not
  among the sources: it constructs the solver on the first call and keeps it afterwards.
  The constructor of the chosen solver is the parameter \<open>makeSolver\<close>.
\<close>

definition DeformableRepresentation_beforeUpdate ::
  "('s body \<Rightarrow> 's) \<Rightarrow> double \<Rightarrow> 's body \<Rightarrow> error + 's body" where
  "DeformableRepresentation_beforeUpdate makeSolver dt b =
     (case m_odeSolver b of
        None \<Rightarrow> Inr (b\<lparr>m_odeSolver := Some (makeSolver b)\<rparr>)
      | Some s \<Rightarrow> Inr b)"

definition beforeUpdate :: "('s body \<Rightarrow> 's) \<Rightarrow> double \<Rightarrow> 's body \<Rightarrow> error + 's body" where
  "beforeUpdate makeSolver dt b =
     (if \<not> isActive b then Inr b
      else if 3 * getNumMasses b \<noteq> m_numDof b then Inl AssertionFailure
      else if getNumMasses b = 0 then Inl AssertionFailure
      else if getNumSprings b = 0 then Inl AssertionFailure
      else if m_numDof b = 0 then Inl AssertionFailure
      else DeformableRepresentation_beforeUpdate makeSolver dt b)"

text \<open>
  \<^verbatim>\<open>update\<close>. The solver's \<^verbatim>\<open>solve(dt, currentState, newState)\<close> is virtual and its
  implementations are outside the sources: it is the parameter \<open>solve\<close>, which reads the
  current state, receives the state object to fill in, and returns the solver object
  after the call together with the filled-in state. The two \<^verbatim>\<open>swap\<close>s exchange
  pointers; they do not touch the store.
\<close>

definition update ::
  "('s \<Rightarrow> double \<Rightarrow> state \<Rightarrow> state \<Rightarrow> 's \<times> state) \<Rightarrow> double \<Rightarrow> 's body \<Rightarrow> error + 's body" where
  "update solve dt b =
     (if \<not> isActive b then Inr b
      else case m_odeSolver b of
        None \<Rightarrow> Inl AssertionFailure
      | Some s \<Rightarrow>
     (case m_initialState b of
        None \<Rightarrow> Inl AssertionFailure
      | Some i0 \<Rightarrow>
     (case m_currentState b of
        None \<Rightarrow> Inl NullPointer
      | Some c \<Rightarrow>
     (case m_newState b of
        None \<Rightarrow> Inl NullPointer
      | Some n \<Rightarrow>
         (let (s', new) = solve s dt (store b c) (store b n);
              b1 = b\<lparr>m_odeSolver := Some s', store := (store b)(n := new)\<rparr>;
              b2 = b1\<lparr>m_currentState := m_previousState b1,
                      m_previousState := m_currentState b1\<rparr>;
              b3 = b2\<lparr>m_currentState := m_newState b2, m_newState := m_currentState b2\<rparr>
          in Inr b3)))))"

definition isValidState :: "state \<Rightarrow> bool" where
  "isValidState st = (isValid (positions st) \<and> isValid (velocities st))"

text \<open>
  \<^verbatim>\<open>deactivateAndReset\<close> writes a log line from the current state, calls the virtual
  \<^verbatim>\<open>resetState()\<close> and clears the active flag. The override of \<^verbatim>\<open>resetState\<close> that a
  mass-spring body inherits is outside the sources: it is the parameter \<open>resetState\<close>.
\<close>

definition deactivateAndReset ::
  "('s body \<Rightarrow> error + 's body) \<Rightarrow> 's body \<Rightarrow> error + 's body" where
  "deactivateAndReset resetState b =
     (case m_currentState b of
        None \<Rightarrow> Inl NullPointer
      | Some c \<Rightarrow> bindE (resetState b) (\<lambda>b1. Inr (setIsActive False b1)))"

text \<open>
  Modelled from the spec: \<^verbatim>\<open>DeformableRepresentation::resetState\<close>, which is not among
  the sources. Representation.h documents \<^verbatim>\<open>resetState\<close> as resetting the representation
  to its initial state, and the spec as resetting the body to its rest state: the initial
  state is copied into the current and the previous state. What the reset does to the
  final state is not described by the spec and is left out of this definition; the entry
  points below take the reset as a parameter, so that what is proved of them holds of
  any reset.
\<close>

definition DeformableRepresentation_resetState :: "'s body \<Rightarrow> error + 's body" where
  "DeformableRepresentation_resetState b =
     (case (m_initialState b, m_currentState b, m_previousState b) of
        (Some i0, Some c, Some p) \<Rightarrow>
          Inr (b\<lparr>store := (store b)(c := store b i0, p := store b i0)\<rparr>)
      | _ \<Rightarrow> Inl NullPointer)"

definition afterUpdate ::
  "('s body \<Rightarrow> error + 's body) \<Rightarrow> double \<Rightarrow> 's body \<Rightarrow> error + 's body" where
  "afterUpdate resetState dt b =
     (if \<not> isActive b then Inr b
      else case m_currentState b of
        None \<Rightarrow> Inl NullPointer
      | Some c \<Rightarrow>
          if \<not> isValidState (store b c) then deactivateAndReset resetState b
          else (case m_finalState b of
                  None \<Rightarrow> Inl NullPointer
                | Some f \<Rightarrow> Inr (b\<lparr>store := (store b)(f := store b c)\<rparr>)))"

definition applyCorrection ::
  "('s body \<Rightarrow> error + 's body) \<Rightarrow> double \<Rightarrow> vector \<Rightarrow> 's body \<Rightarrow> error + 's body" where
  "applyCorrection resetState dt deltaVelocity b =
     (if \<not> isActive b then Inr b
      else case m_currentState b of
        None \<Rightarrow> Inl NullPointer
      | Some c \<Rightarrow>
          bindE (vadd_assign (positions (store b c)) (vscale deltaVelocity dt)) (\<lambda>x.
          bindE (vadd_assign (velocities (store b c)) deltaVelocity) (\<lambda>v.
            let st = (store b c)\<lparr>positions := x, velocities := v\<rparr>;
                b1 = b\<lparr>store := (store b)(c := st)\<rparr>
            in if \<not> isValidState st then deactivateAndReset resetState b1 else Inr b1)))"

subsection \<open>Assembly of the force vector and of the system matrices\<close>

text \<open>
  \<^verbatim>\<open>addGravityForce(f, state, scale)\<close>: the source does not use \<open>scale\<close>.
\<close>

definition addGravityForce :: "'s body \<Rightarrow> vector \<Rightarrow> state \<Rightarrow> double \<Rightarrow> error + vector" where
  "addGravityForce b f st scale =
     (if m_isGravityEnabled b
      then foldE (\<lambda>massId f1.
             bindE (getMass b massId) (\<lambda>mass.
             addSubVector (vscale (m_gravity b) mass) massId 3 f1))
           [0..<getNumMasses b] f
      else Inr f)"

definition addSpringsForce :: "'s body \<Rightarrow> vector \<Rightarrow> state \<Rightarrow> double \<Rightarrow> error + vector" where
  "addSpringsForce b force st scale =
     foldE (\<lambda>spring f1. addForce spring st f1 scale) (m_springs b) force"

text \<open>
  \<^verbatim>\<open>addRayleighDampingForce(force, state, useGlobalDampingMatrix,
  useGlobalStiffnessMatrix, useGlobalMassMatrix, scale)\<close>; the three flags default to
  false and \<open>scale\<close> to 1.
\<close>

definition addRayleighDampingForce ::
  "'s body \<Rightarrow> vector \<Rightarrow> state \<Rightarrow> bool \<Rightarrow> bool \<Rightarrow> bool \<Rightarrow> double \<Rightarrow> error + vector" where
  "addRayleighDampingForce b force st useGlobalDampingMatrix useGlobalStiffnessMatrix
       useGlobalMassMatrix scale =
     (let rayleighMass = massCoefficient b;
          rayleighStiffness = stiffnessCoefficient b;
          v = velocities st
      in if useGlobalDampingMatrix \<and> (rayleighStiffness \<noteq> 0 \<or> rayleighMass \<noteq> 0)
         then bindE (mulMatVec (m_D b) v) (\<lambda>Dv. vsub_assign force (smulv scale Dv))
         else
           bindE
             (if rayleighMass \<noteq> 0
              then (if useGlobalMassMatrix
                    then bindE (cwiseProduct (m_M b) v) (\<lambda>Mv.
                           vsub_assign force (smulv (scale * rayleighMass) Mv))
                    else foldE (\<lambda>nodeID f1.
                           bindE (getMass b nodeID) (\<lambda>mass.
                           bindE (getSubVector v nodeID 3) (\<lambda>vi.
                           addSubVector (smulv (- scale * rayleighMass * mass) vi) nodeID 3 f1)))
                         [0..<getNumMasses b] force)
              else Inr force)
             (\<lambda>force1.
                if rayleighStiffness \<noteq> 0
                then (if useGlobalStiffnessMatrix
                      then bindE (mulMatVec (m_K b) v) (\<lambda>Kv.
                             vsub_assign force1 (smulv (scale * rayleighStiffness) Kv))
                      else foldE (\<lambda>spring f1.
                             addMatVec spring st 0 (- scale * rayleighStiffness) v f1)
                           (m_springs b) force1)
                else Inr force1))"

text \<open>The loop \<^verbatim>\<open>m_f[*boundaryCondition] = 0.0\<close> over the boundary conditions.\<close>

definition computeF :: "'s body \<Rightarrow> state \<Rightarrow> error + 's body" where
  "computeF b st =
     (let f0 = resizeVector (m_f b) (getNumDof st) True in
      bindE (addGravityForce b f0 st 1) (\<lambda>f1.
      bindE (addRayleighDampingForce b f1 st False False False 1) (\<lambda>f2.
      bindE (addSpringsForce b f2 st 1) (\<lambda>f3.
      bindE (foldE (\<lambda>boundaryCondition f. vset f boundaryCondition 0)
               (boundaryConditions st) f3) (\<lambda>f4.
      Inr (b\<lparr>m_f := f4\<rparr>))))))"

text \<open>
  \<^verbatim>\<open>computeM\<close>: the diagonal is resized without being zeroed, every mass writes its
  block of three, and every boundary condition then overwrites its entry.
\<close>

definition computeM :: "'s body \<Rightarrow> state \<Rightarrow> error + 's body" where
  "computeM b st =
     (let diagonal0 = resizeVector (m_M b) (getNumDof st) False in
      bindE (foldE (\<lambda>massId d.
               bindE (getMass b massId) (\<lambda>mass.
               setSubVector (vscale (Vector3d 1 1 1) mass) massId 3 d))
             [0..<getNumMasses b] diagonal0) (\<lambda>diagonal1.
      bindE (foldE (\<lambda>boundaryCondition d. vset d boundaryCondition (Fin 1000000000))
               (boundaryConditions st) diagonal1) (\<lambda>diagonal2.
      Inr (b\<lparr>m_M := diagonal2\<rparr>))))"

text \<open>
  One boundary condition applied to a dense matrix: its row and its column are zeroed
  over the \<^verbatim>\<open>getNumDof()\<close> degrees of freedom of the body, then the diagonal entry is
  set to \<open>1e9\<close>.
\<close>

definition applyBoundaryCondition :: "'s body \<Rightarrow> nat \<Rightarrow> matrix \<Rightarrow> error + matrix" where
  "applyBoundaryCondition b boundaryCondition m =
     bindE (blockSetZero m boundaryCondition 0 1 (m_numDof b)) (\<lambda>m1.
     bindE (blockSetZero m1 0 boundaryCondition (m_numDof b) 1) (\<lambda>m2.
     mset m2 boundaryCondition boundaryCondition (Fin 1000000000)))"

definition computeD :: "'s body \<Rightarrow> state \<Rightarrow> error + 's body" where
  "computeD b st =
     (let rayleighStiffness = stiffnessCoefficient b;
          rayleighMass = massCoefficient b;
          D0 = resizeMatrix (m_D b) (getNumDof st) (getNumDof st) True
      in
      bindE (if rayleighMass \<noteq> 0
             then foldE (\<lambda>massId D.
                    bindE (getMass b massId) (\<lambda>mass.
                    let coef = rayleighMass * mass in
                    bindE (setSubVector (vscale (Vector3d 1 1 1) coef) massId 3 (diagonal D))
                      (\<lambda>Ddiagonal. Inr (setDiagonal D Ddiagonal))))
                  [0..<getNumMasses b] D0
             else Inr D0) (\<lambda>D1.
      bindE (if rayleighStiffness \<noteq> 0
             then foldE (\<lambda>spring D. addStiffness spring st D rayleighStiffness)
                    (m_springs b) D1
             else Inr D1) (\<lambda>D2.
      bindE (foldE (\<lambda>spring D. addDamping spring st D 1) (m_springs b) D2) (\<lambda>D3.
      bindE (foldE (applyBoundaryCondition b) (boundaryConditions st) D3) (\<lambda>D4.
      Inr (b\<lparr>m_D := D4\<rparr>))))))"

definition computeK :: "'s body \<Rightarrow> state \<Rightarrow> error + 's body" where
  "computeK b st =
     (let K0 = resizeMatrix (m_K b) (getNumDof st) (getNumDof st) True in
      bindE (foldE (\<lambda>spring K. addStiffness spring st K 1) (m_springs b) K0) (\<lambda>K1.
      bindE (foldE (applyBoundaryCondition b) (boundaryConditions st) K1) (\<lambda>K2.
      Inr (b\<lparr>m_K := K2\<rparr>))))"

text \<open>
  \<^verbatim>\<open>computeFMDK\<close>, in the order of the source: the four buffers are resized, the mass
  matrix is computed (boundary conditions included), every spring adds its force,
  damping and stiffness, the Rayleigh damping matrix is added to \<open>m_D\<close>, gravity and the
  Rayleigh damping force (through \<open>m_D\<close>) are added to \<open>m_f\<close>, and the boundary
  conditions are applied to all four.
\<close>

definition computeFMDK_boundaryCondition ::
  "'s body \<Rightarrow> nat \<Rightarrow> 's body \<Rightarrow> error + 's body" where
  "computeFMDK_boundaryCondition b0 boundaryCondition b =
     bindE (vset (m_M b) boundaryCondition (Fin 1000000000)) (\<lambda>M.
     bindE (applyBoundaryCondition b0 boundaryCondition (m_D b)) (\<lambda>D.
     bindE (applyBoundaryCondition b0 boundaryCondition (m_K b)) (\<lambda>K.
     bindE (vset (m_f b) boundaryCondition 0) (\<lambda>f.
     Inr (b\<lparr>m_f := f, m_M := M, m_D := D, m_K := K\<rparr>)))))"

definition computeFMDK_assemble :: "'s body \<Rightarrow> state \<Rightarrow> error + 's body" where
  "computeFMDK_assemble b st =
     (let n = getNumDof st;
          b0 = b\<lparr>m_f := resizeVector (m_f b) n True,
                 m_M := resizeVector (m_M b) n False,
                 m_D := resizeMatrix (m_D b) n n True,
                 m_K := resizeMatrix (m_K b) n n True\<rparr>
      in
      bindE (computeM b0 st) (\<lambda>b1.
      bindE (foldE (\<lambda>spring (f, D, K). addFDK spring st f D K) (m_springs b1)
               (m_f b1, m_D b1, m_K b1)) (\<lambda>(f2, D2, K2).
      bindE (if massCoefficient b1 \<noteq> 0
             then bindE (vadd_assign (diagonal D2) (vscale (m_M b1) (massCoefficient b1)))
                    (\<lambda>Ddiagonal. Inr (setDiagonal D2 Ddiagonal))
             else Inr D2) (\<lambda>D3.
      bindE (if stiffnessCoefficient b1 \<noteq> 0
             then madd_assign D3 (mscale K2 (stiffnessCoefficient b1))
             else Inr D3) (\<lambda>D4.
      bindE (addGravityForce b1 f2 st 1) (\<lambda>f3.
      Inr (b1\<lparr>m_f := f3, m_D := D4, m_K := K2\<rparr>)))))))"

definition computeFMDK :: "'s body \<Rightarrow> state \<Rightarrow> error + 's body" where
  "computeFMDK b st =
     bindE (computeFMDK_assemble b st) (\<lambda>b2.
     bindE (addRayleighDampingForce b2 (m_f b2) st True False False 1) (\<lambda>f4.
     foldE (computeFMDK_boundaryCondition b2) (boundaryConditions st) (b2\<lparr>m_f := f4\<rparr>)))"

text \<open>
  The outcome of a boundary condition \<open>i\<close> on a dense matrix, over the \<open>n\<close> degrees of
  freedom of the body: the diagonal entry is \<open>1e9\<close> and the other entries of row \<open>i\<close>
  and of column \<open>i\<close> are zero.
\<close>

definition penalised :: "nat \<Rightarrow> nat \<Rightarrow> matrix \<Rightarrow> bool" where
  "penalised n i m \<longleftrightarrow>
     mcoeff m i i = Fin 1000000000 \<and>
     (\<forall>j<n. j \<noteq> i \<longrightarrow> mcoeff m i j = 0 \<and> mcoeff m j i = 0)"

text \<open>
  A spring adds into the matrices it is given: it leaves their dimensions as they are.
  The springs being arbitrary, this is a property a spring may or may not have.
\<close>

definition keepsDimensions :: "spring \<Rightarrow> state \<Rightarrow> bool" where
  "keepsDimensions s st \<longleftrightarrow>
     (\<forall>D scale D'. addDamping s st D scale = Inr D' \<longrightarrow>
        rows D' = rows D \<and> cols D' = cols D) \<and>
     (\<forall>K scale K'. addStiffness s st K scale = Inr K' \<longrightarrow>
        rows K' = rows K \<and> cols K' = cols K) \<and>
     (\<forall>F D K F' D' K'. addFDK s st F D K = Inr (F', D', K') \<longrightarrow>
        rows D' = rows D \<and> cols D' = cols D \<and> rows K' = rows K \<and> cols K' = cols K)"

section \<open>A spring given by its local matrices\<close>

text \<open>
  Modelled from the spec: \<^verbatim>\<open>addSubMatrix\<close> of Matrix.h, which is not among the sources;
  it is the matrix counterpart of \<^verbatim>\<open>addSubVector\<close> over a list of block ids: block
  \<open>(block0, block1)\<close> of the small matrix is added to block
  \<open>(blockIds[block0], blockIds[block1])\<close> of the large one.
\<close>

definition addBlock ::
  "matrix \<Rightarrow> nat \<Rightarrow> nat \<Rightarrow> nat \<Rightarrow> nat \<Rightarrow> nat \<Rightarrow> matrix \<Rightarrow> error + matrix" where
  "addBlock sub subRow subCol startRow startCol blockSize m =
     (if startRow + blockSize \<le> rows m \<and> startCol + blockSize \<le> cols m \<and>
         subRow + blockSize \<le> rows sub \<and> subCol + blockSize \<le> cols sub
      then Inr (m\<lparr>mcoeff := (\<lambda>i j.
             if startRow \<le> i \<and> i < startRow + blockSize \<and>
                startCol \<le> j \<and> j < startCol + blockSize
             then mcoeff m i j + mcoeff sub (subRow + (i - startRow)) (subCol + (j - startCol))
             else mcoeff m i j)\<rparr>)
      else Inl EigenAssert)"

definition addSubMatrix :: "matrix \<Rightarrow> nat list \<Rightarrow> nat \<Rightarrow> matrix \<Rightarrow> error + matrix" where
  "addSubMatrix sub blockIds blockSize m =
     foldE (\<lambda>block0 m0.
        foldE (\<lambda>block1.
           addBlock sub (blockSize * block0) (blockSize * block1)
             (blockSize * (blockIds ! block0)) (blockSize * (blockIds ! block1)) blockSize)
          [0..<length blockIds] m0)
       [0..<length blockIds] m"

text \<open>
  Modelled from the spec: the concrete springs (\<^verbatim>\<open>LinearSpring\<close>) are not among the
  sources. The element contract of the spec describes them: an element has an ordered
  list of node ids and local force, damping and stiffness; \<^verbatim>\<open>addForce\<close> adds the
  scaled local force at the node offsets, \<^verbatim>\<open>addDamping\<close> and \<^verbatim>\<open>addStiffness\<close>
  scatter-add the scaled local matrix, \<^verbatim>\<open>addFDK\<close> is the aggregate of the three, and
  \<^verbatim>\<open>addMatVec\<close> adds \<open>(alphaD * D_local + alphaK * K_local) * x_local\<close> and is a no-op
  when both scalars are zero.
\<close>

record element =
  nodeIds :: "nat list"
  F_local :: "state \<Rightarrow> error + vector"
  D_local :: "state \<Rightarrow> matrix"
  K_local :: "state \<Rightarrow> matrix"

definition element_addForce :: "element \<Rightarrow> state \<Rightarrow> vector \<Rightarrow> double \<Rightarrow> error + vector" where
  "element_addForce e st F scale =
     bindE (F_local e st) (\<lambda>f. addSubVectorBlocks (smulv scale f) (nodeIds e) 3 F)"

definition element_addDamping :: "element \<Rightarrow> state \<Rightarrow> matrix \<Rightarrow> double \<Rightarrow> error + matrix" where
  "element_addDamping e st D scale =
     addSubMatrix (mscale (D_local e st) scale) (nodeIds e) 3 D"

definition element_addStiffness :: "element \<Rightarrow> state \<Rightarrow> matrix \<Rightarrow> double \<Rightarrow> error + matrix" where
  "element_addStiffness e st K scale =
     addSubMatrix (mscale (K_local e st) scale) (nodeIds e) 3 K"

definition element_addFDK ::
  "element \<Rightarrow> state \<Rightarrow> vector \<Rightarrow> matrix \<Rightarrow> matrix \<Rightarrow> error + (vector \<times> matrix \<times> matrix)" where
  "element_addFDK e st F D K =
     bindE (element_addForce e st F 1) (\<lambda>F1.
     bindE (element_addDamping e st D 1) (\<lambda>D1.
     bindE (element_addStiffness e st K 1) (\<lambda>K1. Inr (F1, D1, K1))))"

definition element_addMatVec ::
  "element \<Rightarrow> state \<Rightarrow> double \<Rightarrow> double \<Rightarrow> vector \<Rightarrow> vector \<Rightarrow> error + vector" where
  "element_addMatVec e st alphaD alphaK x F =
     (if alphaD = 0 \<and> alphaK = 0 then Inr F
      else
        bindE (getSubVectorBlocks x (nodeIds e) 3 (vzero (3 * length (nodeIds e)))) (\<lambda>xLoc.
        bindE (mulMatVec (D_local e st) xLoc) (\<lambda>Dx.
        bindE (mulMatVec (K_local e st) xLoc) (\<lambda>Kx.
        bindE (addSubVectorBlocks (smulv alphaD Dx) (nodeIds e) 3 F) (\<lambda>F1.
        addSubVectorBlocks (smulv alphaK Kx) (nodeIds e) 3 F1)))))"

definition elementSpring :: "element \<Rightarrow> spring" where
  "elementSpring e =
     \<lparr>addForce = element_addForce e, addDamping = element_addDamping e,
      addStiffness = element_addStiffness e, addFDK = element_addFDK e,
      addMatVec = element_addMatVec e\<rparr>"

section \<open>The tetrahedron element\<close>

text \<open>
  \<^verbatim>\<open>FemElement3DTetrahedron\<close> with the material parameters it inherits from
  \<^verbatim>\<open>FemElement\<close>. The local matrices and \<open>m_x0\<close> have sizes fixed by their types
  (12 by 12, 6 by 6, 6 by 12, 12): writes into them at the constant indices of the source
  cannot leave them and are modelled without a range check. The two local matrices
  \<open>m_M\<close> and \<open>m_K\<close> carry the suffix \<open>_el\<close>, the names without it being the buffers of
  the body.
\<close>

record tetrahedron =
  m_nodeIds :: "nat list"
  m_rho :: double
  m_E :: double
  m_nu :: double
  m_restVolume :: double
  m_ai :: "nat \<Rightarrow> double"
  m_bi :: "nat \<Rightarrow> double"
  m_ci :: "nat \<Rightarrow> double"
  m_di :: "nat \<Rightarrow> double"
  m_x0 :: vector
  m_M_el :: matrix
  m_K_el :: matrix
  m_Em :: matrix
  m_strain :: matrix
  m_stress :: matrix

subsection \<open>Fixed-size operations\<close>

definition mput :: "matrix \<Rightarrow> nat \<Rightarrow> nat \<Rightarrow> double \<Rightarrow> matrix" where
  "mput m i j a = m\<lparr>mcoeff := (\<lambda>r c. if r = i \<and> c = j then a else mcoeff m r c)\<rparr>"

definition vplus :: "vector \<Rightarrow> vector \<Rightarrow> vector" where
  "vplus x y = x\<lparr>vcoeff := (\<lambda>i. vcoeff x i + vcoeff y i)\<rparr>"

definition mplus :: "matrix \<Rightarrow> matrix \<Rightarrow> matrix" where
  "mplus x y = x\<lparr>mcoeff := (\<lambda>i j. mcoeff x i j + mcoeff y i j)\<rparr>"

definition smulm :: "double \<Rightarrow> matrix \<Rightarrow> matrix" where
  "smulm a m = m\<lparr>mcoeff := (\<lambda>i j. a * mcoeff m i j)\<rparr>"

definition transpose_matrix :: "matrix \<Rightarrow> matrix" where
  "transpose_matrix m = \<lparr>rows = cols m, cols = rows m, mcoeff = (\<lambda>i j. mcoeff m j i)\<rparr>"

definition mmul :: "matrix \<Rightarrow> matrix \<Rightarrow> matrix" where
  "mmul a b = \<lparr>rows = rows a, cols = cols b,
     mcoeff = (\<lambda>i j. dotn (\<lambda>k. mcoeff a i k) (\<lambda>k. mcoeff b k j) (cols a))\<rparr>"

text \<open>\<^verbatim>\<open>Matrix33d::Identity()\<close>.\<close>

definition Identity33 :: matrix where
  "Identity33 = \<lparr>rows = 3, cols = 3, mcoeff = (\<lambda>i j. if i = j then 1 else 0)\<rparr>"

text \<open>
  Modelled from the spec: \<^verbatim>\<open>getSubMatrix\<close> of Matrix.h, which is not among the sources;
  it is the matrix counterpart of \<^verbatim>\<open>getSubVector\<close> and returns the block of
  \<open>blockSizeRow\<close> by \<open>blockSizeCol\<close> entries at the block indices \<open>blockIdRow\<close>,
  \<open>blockIdCol\<close>. The source assigns a matrix to that view:
  \<^verbatim>\<open>getSubMatrix(M, blockIdRow, blockIdCol, blockSizeRow, blockSizeCol) = sub\<close>.
\<close>

definition setSubMatrix ::
  "matrix \<Rightarrow> nat \<Rightarrow> nat \<Rightarrow> nat \<Rightarrow> nat \<Rightarrow> matrix \<Rightarrow> matrix" where
  "setSubMatrix sub blockIdRow blockIdCol blockSizeRow blockSizeCol m =
     m\<lparr>mcoeff := (\<lambda>i j.
        if blockSizeRow * blockIdRow \<le> i \<and> i < blockSizeRow * blockIdRow + blockSizeRow \<and>
           blockSizeCol * blockIdCol \<le> j \<and> j < blockSizeCol * blockIdCol + blockSizeCol
        then mcoeff sub (i - blockSizeRow * blockIdRow) (j - blockSizeCol * blockIdCol)
        else mcoeff m i j)\<rparr>"

text \<open>\<^verbatim>\<open>v.sum()\<close>: the sum of the first \<open>n\<close> values of \<open>f\<close>.\<close>

fun sumn :: "(nat \<Rightarrow> double) \<Rightarrow> nat \<Rightarrow> double" where
  "sumn f 0 = 0"
| "sumn f (Suc n) = sumn f n + f n"

definition vsum :: "vector \<Rightarrow> double" where
  "vsum v = sumn (vcoeff v) (vsize v)"

text \<open>
  Modelled from the spec: \<^verbatim>\<open>SurgSim::Math::Geometry::ScalarEpsilon\<close> of Geometry.h,
  which is not among the sources; the spec gives its value, \<open>1e-10\<close>.
\<close>

definition ScalarEpsilon :: double where
  "ScalarEpsilon = Fin (1 / 10000000000)"

subsection \<open>Volume and shape functions\<close>

text \<open>The determinant of three vectors of size 3.\<close>

definition det :: "vector \<Rightarrow> vector \<Rightarrow> vector \<Rightarrow> double" where
  "det a b c =
     vcoeff a 0 * vcoeff b 1 * vcoeff c 2 + vcoeff a 2 * vcoeff b 0 * vcoeff c 1 +
     vcoeff a 1 * vcoeff b 2 * vcoeff c 0 - vcoeff a 2 * vcoeff b 1 * vcoeff c 0 -
     vcoeff a 1 * vcoeff b 0 * vcoeff c 2 - vcoeff a 0 * vcoeff b 2 * vcoeff c 1"

definition getVolume :: "tetrahedron \<Rightarrow> state \<Rightarrow> error + double" where
  "getVolume e st =
     (let x = positions st in
      bindE (getSubVector x (m_nodeIds e ! 0) 3) (\<lambda>p0.
      bindE (getSubVector x (m_nodeIds e ! 1) 3) (\<lambda>p1.
      bindE (getSubVector x (m_nodeIds e ! 2) 3) (\<lambda>p2.
      bindE (getSubVector x (m_nodeIds e ! 3) 3) (\<lambda>p3.
      Inr ((det p1 p2 p3 - det p0 p2 p3 + det p0 p1 p3 - det p0 p1 p2) / Fin 6))))))"

definition computeShapeFunctions_parameters ::
  "tetrahedron \<Rightarrow> vector \<Rightarrow> vector \<Rightarrow> vector \<Rightarrow> vector \<Rightarrow> tetrahedron" where
  "computeShapeFunctions_parameters e1 a b c d =
     (let e2 = e1\<lparr>m_ai := (m_ai e1)(0 := det b c d, 1 := - det a c d,
                                     2 := det a b d, 3 := - det a b c)\<rparr>;
         atilde = Vector3d (Fin 1) (vcoeff a 1) (vcoeff a 2);
         btilde = Vector3d (Fin 1) (vcoeff b 1) (vcoeff b 2);
         ctilde = Vector3d (Fin 1) (vcoeff c 1) (vcoeff c 2);
         dtilde = Vector3d (Fin 1) (vcoeff d 1) (vcoeff d 2);
         e3 = e2\<lparr>m_bi := (m_bi e2)(0 := - det btilde ctilde dtilde,
                                     1 := det atilde ctilde dtilde,
                                     2 := - det atilde btilde dtilde,
                                     3 := det atilde btilde ctilde)\<rparr>;
         atilde = Vector3d (Fin 1) (vcoeff a 0) (vcoeff a 2);
         btilde = Vector3d (Fin 1) (vcoeff b 0) (vcoeff b 2);
         ctilde = Vector3d (Fin 1) (vcoeff c 0) (vcoeff c 2);
         dtilde = Vector3d (Fin 1) (vcoeff d 0) (vcoeff d 2);
         e4 = e3\<lparr>m_ci := (m_ci e3)(0 := det btilde ctilde dtilde,
                                     1 := - det atilde ctilde dtilde,
                                     2 := det atilde btilde dtilde,
                                     3 := - det atilde btilde ctilde)\<rparr>;
         atilde = Vector3d (Fin 1) (vcoeff a 0) (vcoeff a 1);
         btilde = Vector3d (Fin 1) (vcoeff b 0) (vcoeff b 1);
         ctilde = Vector3d (Fin 1) (vcoeff c 0) (vcoeff c 1);
         dtilde = Vector3d (Fin 1) (vcoeff d 0) (vcoeff d 1)
     in e4\<lparr>m_di := (m_di e4)(0 := - det btilde ctilde dtilde,
                                  1 := det atilde ctilde dtilde,
                                  2 := - det atilde btilde dtilde,
                                  3 := det atilde btilde ctilde)\<rparr>)"

text \<open>
  \<^verbatim>\<open>computeShapeFunctions\<close>: the four node positions are read, the rest volume is
  stored, then the parameters \<open>m_ai\<close>, \<open>m_bi\<close>, \<open>m_ci\<close> and \<open>m_di\<close> of the shape functions
  are.
\<close>

definition computeShapeFunctions :: "tetrahedron \<Rightarrow> state \<Rightarrow> error + tetrahedron" where
  "computeShapeFunctions e restState =
     bindE (getSubVector (positions restState) (m_nodeIds e ! 0) 3) (\<lambda>a.
     bindE (getSubVector (positions restState) (m_nodeIds e ! 1) 3) (\<lambda>b.
     bindE (getSubVector (positions restState) (m_nodeIds e ! 2) 3) (\<lambda>c.
     bindE (getSubVector (positions restState) (m_nodeIds e ! 3) 3) (\<lambda>d.
     bindE (getVolume e restState) (\<lambda>V.
     Inr (computeShapeFunctions_parameters (e\<lparr>m_restVolume := V\<rparr>) a b c d))))))"

subsection \<open>Mass and stiffness\<close>

text \<open>
  \<^verbatim>\<open>computeMass(state, M)\<close>: \<open>coef = getVolume(state) * m_rho / 20\<close>, and each of the
  sixteen 3 by 3 blocks of \<open>M\<close> is assigned the identity times \<open>2 * coef\<close> on the block
  diagonal and times \<open>coef\<close> off it.
\<close>

definition computeMass_block :: "double \<Rightarrow> nat \<Rightarrow> nat \<Rightarrow> matrix \<Rightarrow> matrix" where
  "computeMass_block coef rowNodeId colNodeId M1 =
     (if rowNodeId = colNodeId
      then setSubMatrix (mscale Identity33 (Fin 2 * coef)) rowNodeId colNodeId 3 3 M1
      else setSubMatrix (mscale Identity33 coef) rowNodeId colNodeId 3 3 M1)"

definition computeMass :: "tetrahedron \<Rightarrow> state \<Rightarrow> matrix \<Rightarrow> error + matrix" where
  "computeMass e st M =
     bindE (getVolume e st) (\<lambda>V.
     let coef = V * m_rho e / Fin 20 in
     Inr (fold (\<lambda>rowNodeId. fold (computeMass_block coef rowNodeId) [0..<4])
          [0..<4] (M\<lparr>rows := 12, cols := 12\<rparr>)))"

text \<open>Block \<open>(r, c)\<close> of a matrix is the 3 by 3 identity times \<open>s\<close>.\<close>

definition massBlock :: "double \<Rightarrow> nat \<Rightarrow> nat \<Rightarrow> matrix \<Rightarrow> bool" where
  "massBlock s r c M \<longleftrightarrow>
     (\<forall>a<3. \<forall>b<3. mcoeff M (3 * r + a) (3 * c + b) = mcoeff Identity33 a b * s)"

definition computeStiffness_strain :: "tetrahedron \<Rightarrow> double \<Rightarrow> nat \<Rightarrow> matrix \<Rightarrow> matrix" where
  "computeStiffness_strain e coef i m =
     (let m0 = mput m 0 (3 * i) (coef * m_bi e i);
          m1 = mput m0 1 (3 * i + 1) (coef * m_ci e i);
          m2 = mput m1 2 (3 * i + 2) (coef * m_di e i);
          m3 = mput m2 3 (3 * i) (coef * m_ci e i);
          m4 = mput m3 3 (3 * i + 1) (coef * m_bi e i);
          m5 = mput m4 4 (3 * i + 1) (coef * m_di e i);
          m6 = mput m5 4 (3 * i + 2) (coef * m_ci e i);
          m7 = mput m6 5 (3 * i) (coef * m_di e i)
      in mput m7 5 (3 * i + 2) (coef * m_bi e i))"

text \<open>
  \<^verbatim>\<open>computeStiffness\<close>: the strain matrix, the elasticity matrix of the material (from
  the Lame coefficients), their product the stress matrix, and the stiffness matrix
  \<open>m_restVolume * strain\<^sup>T * stress\<close>, made symmetric.
\<close>

definition computeStiffness_strainMatrix :: "tetrahedron \<Rightarrow> matrix" where
  "computeStiffness_strainMatrix e =
     (let coef = Fin 1 / (Fin 6 * m_restVolume e)
      in fold (computeStiffness_strain e coef) [0..<4]
           \<lparr>rows = 6, cols = 12, mcoeff = (\<lambda>i j. 0)\<rparr>)"

definition computeStiffness_Em :: "tetrahedron \<Rightarrow> matrix" where
  "computeStiffness_Em e =
     (let lambda = m_E e * m_nu e / ((Fin 1 + m_nu e) * (Fin 1 - Fin 2 * m_nu e));
          mu = m_E e / (Fin 2 * (Fin 1 + m_nu e))
      in \<lparr>rows = 6, cols = 6, mcoeff = (\<lambda>i j.
            if i < 3 \<and> j < 3 then (if i = j then Fin 2 * mu + lambda else lambda)
            else if i = j \<and> i < 6 then mu else 0)\<rparr>)"

definition computeStiffness_k :: "tetrahedron \<Rightarrow> matrix \<Rightarrow> matrix \<Rightarrow> matrix" where
  "computeStiffness_k e strain stress =
     (let k = mmul (smulm (m_restVolume e) (transpose_matrix strain)) stress
      in mscale (mplus k (transpose_matrix k)) (Fin (1 / 2)))"

definition computeStiffness :: "tetrahedron \<Rightarrow> state \<Rightarrow> tetrahedron" where
  "computeStiffness e st =
     e\<lparr>m_Em := computeStiffness_Em e,
       m_strain := computeStiffness_strainMatrix e,
       m_stress := mmul (computeStiffness_Em e) (computeStiffness_strainMatrix e),
       m_K_el := computeStiffness_k e (computeStiffness_strainMatrix e)
                   (mmul (computeStiffness_Em e) (computeStiffness_strainMatrix e))\<rparr>"

subsection \<open>Initialisation\<close>

text \<open>
  Modelled from the spec: \<^verbatim>\<open>FemElement::initialize\<close>, which is not among the sources.
  It validates the material parameters: mass density above 0, Young modulus above 0,
  Poisson ratio at least 0 and below 0.5; otherwise it fails.
\<close>

definition FemElement_initialize :: "tetrahedron \<Rightarrow> state \<Rightarrow> error + unit" where
  "FemElement_initialize e st =
     (if Fin 0 < m_rho e \<and> Fin 0 < m_E e \<and> Fin 0 \<le> m_nu e \<and> m_nu e < Fin (1 / 2)
      then Inr () else Inl AssertionFailure)"

text \<open>
  \<^verbatim>\<open>initialize\<close>: the parameters are validated, every node id is asserted to be below
  the number of nodes of the state, then the shape functions, the rest positions, the mass
  and the stiffness are computed and stored. The test on the orientation of the nodes only
  writes a warning to the log.
\<close>

definition initialize :: "tetrahedron \<Rightarrow> state \<Rightarrow> error + tetrahedron" where
  "initialize e st =
     bindE (FemElement_initialize e st) (\<lambda>u.
     bindE (foldE (\<lambda>nodeId u. if nodeId < getNumNodes st then Inr u else Inl AssertionFailure)
              (m_nodeIds e) ()) (\<lambda>u.
     bindE (computeShapeFunctions e st) (\<lambda>e1.
     bindE (getSubVectorBlocks (positions st) (m_nodeIds e1) 3 ((m_x0 e1)\<lparr>vsize := 12\<rparr>)) (\<lambda>x0.
     let e2 = e1\<lparr>m_x0 := x0\<rparr> in
     bindE (computeMass e2 st (m_M_el e2)) (\<lambda>M.
     Inr (computeStiffness (e2\<lparr>m_M_el := M\<rparr>) st))))))"

subsection \<open>Natural coordinates\<close>

definition isValidCoordinate :: "tetrahedron \<Rightarrow> vector \<Rightarrow> bool" where
  "isValidCoordinate e naturalCoordinate =
     (\<bar>vsum naturalCoordinate - Fin 1\<bar> < ScalarEpsilon \<and> vsize naturalCoordinate = 4)"

definition computeCartesianCoordinate ::
  "tetrahedron \<Rightarrow> state \<Rightarrow> vector \<Rightarrow> error + vector" where
  "computeCartesianCoordinate e st naturalCoordinate =
     (if \<not> isValidCoordinate e naturalCoordinate then Inl AssertionFailure
      else
        let x = positions st in
        bindE (getSubVector x (m_nodeIds e ! 0) 3) (\<lambda>p0.
        bindE (getSubVector x (m_nodeIds e ! 1) 3) (\<lambda>p1.
        bindE (getSubVector x (m_nodeIds e ! 2) 3) (\<lambda>p2.
        bindE (getSubVector x (m_nodeIds e ! 3) 3) (\<lambda>p3.
        Inr (vplus (vplus (vplus (smulv (vcoeff naturalCoordinate 0) p0)
                                 (smulv (vcoeff naturalCoordinate 1) p1))
                          (smulv (vcoeff naturalCoordinate 2) p2))
                   (smulv (vcoeff naturalCoordinate 3) p3)))))))"

section \<open>The Runge-Kutta 4 step on a point mass\<close>


















section \<open>A two-mass body\<close>

text \<open>
  A concrete body on which the assembly and the entry points are evaluated: two masses of
  1 kg joined by one spring of damping \<open>d\<close> and no stiffness, whose local damping matrix is
  \<open>d\<close> times \<open>(I, -I; -I, I)\<close> and whose force is minus that matrix times the local
  velocities; Rayleigh mass coefficient 1, Rayleigh stiffness coefficient 0; gravity along
  \<open>-y\<close>. The five state pointers designate five distinct state objects.
\<close>

definition zeroMatrix :: "nat \<Rightarrow> nat \<Rightarrow> matrix" where
  "zeroMatrix r c = \<lparr>rows = r, cols = c, mcoeff = (\<lambda>i j. 0)\<rparr>"

definition damperMatrix :: "double \<Rightarrow> matrix" where
  "damperMatrix d = \<lparr>rows = 6, cols = 6, mcoeff = (\<lambda>i j.
      if i = j then d else if i = j + 3 \<or> j = i + 3 then - d else 0)\<rparr>"

definition damper :: "double \<Rightarrow> element" where
  "damper d = \<lparr>nodeIds = [0, 1],
     F_local = (\<lambda>st.
        bindE (getSubVectorBlocks (velocities st) [0, 1] 3 (vzero 6)) (\<lambda>vLoc.
        bindE (mulMatVec (damperMatrix d) vLoc) (\<lambda>Dv. Inr (smulv (Fin (- 1)) Dv)))),
     D_local = (\<lambda>st. damperMatrix d),
     K_local = (\<lambda>st. zeroMatrix 6 6)\<rparr>"

text \<open>
  Three states of two nodes: at rest; node 0 moving along \<open>x\<close> at 1 m/s; and a state
  whose first position is not a number. The last degree of freedom is under a boundary
  condition.
\<close>

definition restState :: state where
  "restState = \<lparr>positions = vzero 6, velocities = vzero 6, accelerations = vzero 6,
     boundaryConditions = [5], numNodes = 2, numDofPerNode = 3\<rparr>"

definition movingState :: state where
  "movingState = restState\<lparr>velocities :=
     \<lparr>vsize = 6, vcoeff = (\<lambda>i. if i = 0 then Fin 1 else Fin 0)\<rparr>\<rparr>"

definition invalidState :: state where
  "invalidState = restState\<lparr>positions :=
     \<lparr>vsize = 6, vcoeff = (\<lambda>i. if i = 0 then NaN else Fin 0)\<rparr>\<rparr>"

definition twoMassBody :: "nat body" where
  "twoMassBody = \<lparr>m_isActive = True, m_isGravityEnabled = True,
     m_gravity = Vector3d (Fin 0) (Fin (- 981 / 100)) (Fin 0), m_numDof = 6,
     m_masses = [Fin 1, Fin 1], m_springs = [elementSpring (damper (Fin 1))],
     massCoefficient = Fin 1, stiffnessCoefficient = Fin 0,
     m_odeSolver = Some 0, m_initialState = Some 0, m_previousState = Some 1,
     m_currentState = Some 2, m_newState = Some 3, m_finalState = Some 4,
     store = (\<lambda>a. if a = 2 then movingState else restState),
     m_f = vzero 0, m_M = vzero 0, m_D = zeroMatrix 0 0, m_K = zeroMatrix 0 0\<rparr>"

text \<open>
  The same body with its spring between the nodes 1 and 2 instead, and a state of three
  nodes, nine degrees of freedom, for it: the body itself keeps its six degrees of
  freedom.
\<close>

definition damperOn :: "nat list \<Rightarrow> double \<Rightarrow> element" where
  "damperOn ids d = \<lparr>nodeIds = ids,
     F_local = (\<lambda>st.
        bindE (getSubVectorBlocks (velocities st) ids 3 (vzero 6)) (\<lambda>vLoc.
        bindE (mulMatVec (damperMatrix d) vLoc) (\<lambda>Dv. Inr (smulv (Fin (- 1)) Dv)))),
     D_local = (\<lambda>st. damperMatrix d),
     K_local = (\<lambda>st. zeroMatrix 6 6)\<rparr>"

definition threeNodeState :: state where
  "threeNodeState = \<lparr>positions = vzero 9, velocities = vzero 9, accelerations = vzero 9,
     boundaryConditions = [5], numNodes = 3, numDofPerNode = 3\<rparr>"

definition spanningBody :: "nat body" where
  "spanningBody = twoMassBody\<lparr>m_springs := [elementSpring (damperOn [1, 2] (Fin 1))]\<rparr>"

text \<open>A solver stand-in: it counts its calls and fills the new state with the current one.\<close>

definition countingSolve :: "nat \<Rightarrow> double \<Rightarrow> state \<Rightarrow> state \<Rightarrow> nat \<times> state" where
  "countingSolve s dt current new = (Suc s, current)"

text \<open>Two velocity corrections: one of 1 m/s, one with an infinite first entry.\<close>

definition unitCorrection :: vector where
  "unitCorrection = \<lparr>vsize = 6, vcoeff = (\<lambda>i. Fin 1)\<rparr>"

definition infiniteCorrection :: vector where
  "infiniteCorrection = \<lparr>vsize = 6, vcoeff = (\<lambda>i. if i = 0 then PosInf else Fin 0)\<rparr>"

text \<open>
  A finite correction whose product by a time step of 10 s leaves the range of a double.
\<close>

definition hugeCorrection :: vector where
  "hugeCorrection = \<lparr>vsize = 6, vcoeff = (\<lambda>i. if i = 0 then Fin (10 ^ 308) else Fin 0)\<rparr>"

section \<open>A unit tetrahedron\<close>

text \<open>
  A state of four nodes at the origin and at the three unit points, and the element on
  these nodes with mass density 1000, Young modulus \<open>1e6\<close> and Poisson ratio 0.45, before
  its initialisation. Its volume is 1/6.
\<close>

definition fourNodeState :: state where
  "fourNodeState = \<lparr>
     positions = \<lparr>vsize = 12, vcoeff = (\<lambda>i. if i = 3 \<or> i = 7 \<or> i = 11 then Fin 1 else Fin 0)\<rparr>,
     velocities = vzero 12, accelerations = vzero 12,
     boundaryConditions = [], numNodes = 4, numDofPerNode = 3\<rparr>"

definition unitTetrahedron :: tetrahedron where
  "unitTetrahedron = \<lparr>m_nodeIds = [0, 1, 2, 3],
     m_rho = Fin 1000, m_E = Fin 1000000, m_nu = Fin (45 / 100), m_restVolume = Fin 0,
     m_ai = (\<lambda>i. 0), m_bi = (\<lambda>i. 0), m_ci = (\<lambda>i. 0), m_di = (\<lambda>i. 0),
     m_x0 = vzero 12, m_M_el = zeroMatrix 12 12, m_K_el = zeroMatrix 12 12,
     m_Em = zeroMatrix 6 6, m_strain = zeroMatrix 6 12, m_stress = zeroMatrix 6 12\<rparr>"

text \<open>The natural coordinates of the centroid, and a vector that is not one.\<close>

definition centroid :: vector where
  "centroid = \<lparr>vsize = 4, vcoeff = (\<lambda>i. Fin (1 / 4))\<rparr>"

definition notNormalised :: vector where
  "notNormalised = \<lparr>vsize = 4, vcoeff = (\<lambda>i. Fin (1 / 2))\<rparr>"

section \<open>A point mass under gravity\<close>






section \<open>Properties\<close>

subsection \<open>Arithmetic within the range\<close>

text \<open>
  Below the threshold an operation on finite values is exact, and a finite result is
  below the threshold. The third lemma is the form of the first that a concrete
  evaluation uses.
\<close>

lemma finiteResult_exact: "\<bar>r\<bar> < overflowThreshold \<Longrightarrow> finiteResult r = Fin r"
  by (auto simp: finiteResult_def)

lemma finiteResult_range: "finiteResult r = Fin a \<Longrightarrow> \<bar>a\<bar> < overflowThreshold"
  by (auto simp: finiteResult_def split: if_splits)

lemma finiteResult_small [simp]:
  "\<bar>r\<bar> \<le> 1000000000000000000000000000000 \<Longrightarrow> finiteResult r = Fin r"
  by (rule finiteResult_exact) (simp add: overflowThreshold_def)




subsection \<open>Failure and loops\<close>

lemma bindE_Inr [simp]: "bindE (Inr x) f = f x"
  by (simp add: bindE_def)

lemma bindE_Inl [simp]: "bindE (Inl e) f = Inl e"
  by (simp add: bindE_def)

lemma bindE_eq_Inr: "bindE m f = Inr y \<longleftrightarrow> (\<exists>x. m = Inr x \<and> f x = Inr y)"
  by (cases m) simp_all

text \<open>
  A loop that succeeds establishes \<open>P\<close> when the step for the element \<open>i\<close> establishes it
  and every step preserves it.
\<close>

lemma foldE_establishes:
  assumes run: "foldE f xs a = Inr a'"
    and start: "P a \<or> i \<in> set xs"
    and step: "\<And>x a a'. f x a = Inr a' \<Longrightarrow> P a \<or> x = i \<Longrightarrow> P a'"
  shows "P a'"
  using run start
proof (induction xs arbitrary: a)
  case Nil
  then show ?case by simp
next
  case (Cons x xs)
  from Cons.prems(1) obtain a1 where a1: "f x a = Inr a1" and rest: "foldE f xs a1 = Inr a'"
    by (auto simp: bindE_eq_Inr)
  show ?case
  proof (cases "P a \<or> x = i")
    case True
    with a1 have "P a1" by (rule step)
    with rest show ?thesis using Cons.IH by blast
  next
    case False
    with Cons.prems(2) have "i \<in> set xs" by auto
    with rest show ?thesis using Cons.IH by blast
  qed
qed

text \<open>A loop that succeeds preserves \<open>P\<close> when every step does.\<close>

lemma foldE_preserves:
  assumes run: "foldE f xs a = Inr a'"
    and start: "P a"
    and step: "\<And>x a a'. x \<in> set xs \<Longrightarrow> f x a = Inr a' \<Longrightarrow> P a \<Longrightarrow> P a'"
  shows "P a'"
  using run start step
proof (induction xs arbitrary: a)
  case Nil
  then show ?case by simp
next
  case (Cons x xs)
  from Cons.prems(1) obtain a1 where a1: "f x a = Inr a1" and rest: "foldE f xs a1 = Inr a'"
    by (auto simp: bindE_eq_Inr)
  from a1 Cons.prems(2) have "P a1" by (rule Cons.prems(3) [of x, simplified])
  with rest show ?case using Cons.IH Cons.prems(3) by (metis list.set_intros(2))
qed

text \<open>The definitions a concrete evaluation unfolds.\<close>

lemmas eigen_defs =
  setDiagonal_def diagonal_def mset_def blockSetZero_def mulMatVec_def madd_assign_def
  mscale_def cwiseProduct_def smulv_def resizeMatrix_def resizeVector_def
  getSubVectorBlocks_def addSubVectorBlocks_def getSubVector_def setSubVector_def
  addSubVector_def vset_def vsub_assign_def vadd_assign_def vscale_def vzero_def
  Vector3d_def addSubMatrix_def addBlock_def zero_double_def one_double_def
  minus_double_def finiteResult_small

lemmas assembly_defs =
  computeFMDK_def computeFMDK_assemble_def computeFMDK_boundaryCondition_def computeK_def
  computeD_def computeM_def computeF_def applyBoundaryCondition_def
  addRayleighDampingForce_def addSpringsForce_def addGravityForce_def getMass_def
  getNumMasses_def getNumDof_def

lemmas twoMassBody_defs =
  twoMassBody_def restState_def movingState_def invalidState_def damper_def
  spanningBody_def threeNodeState_def damperOn_def damperMatrix_def zeroMatrix_def elementSpring_def element_addMatVec_def
  element_addFDK_def element_addStiffness_def element_addDamping_def element_addForce_def

subsection \<open>Boundary conditions in the assembly\<close>

lemma vset_step: "vset v k a = Inr v' \<Longrightarrow> vcoeff v i = a \<or> k = i \<Longrightarrow> vcoeff v' i = a"
  by (auto simp: vset_def split: if_splits)

lemma vset_loop:
  assumes run: "foldE (\<lambda>k v. vset v k a) ks v = Inr v'" and mem: "i \<in> set ks"
  shows "vcoeff v' i = a"
proof (rule foldE_establishes [where P = "\<lambda>v. vcoeff v i = a", OF run])
  show "vcoeff v i = a \<or> i \<in> set ks" using mem by simp
  show "\<And>x a' a''. vset a' x a = Inr a'' \<Longrightarrow> vcoeff a' i = a \<or> x = i \<Longrightarrow> vcoeff a'' i = a"
    by (rule vset_step)
qed

lemma applyBoundaryCondition_coeff:
  assumes "applyBoundaryCondition b k m = Inr m'"
  shows "mcoeff m' r c =
     (if r = k \<and> c = k then Fin 1000000000
      else if (r = k \<and> c < m_numDof b) \<or> (c = k \<and> r < m_numDof b) then 0
      else mcoeff m r c)"
  using assms
  by (auto simp: applyBoundaryCondition_def blockSetZero_def mset_def bindE_eq_Inr
        split: if_splits)

lemma applyBoundaryCondition_step:
  assumes run: "applyBoundaryCondition b k m = Inr m'"
    and pre: "penalised (m_numDof b) i m \<or> k = i"
  shows "penalised (m_numDof b) i m'"
  using pre unfolding penalised_def applyBoundaryCondition_coeff [OF run]
  by auto

lemma applyBoundaryCondition_loop:
  assumes run: "foldE (applyBoundaryCondition b) ks m = Inr m'" and mem: "i \<in> set ks"
  shows "penalised (m_numDof b) i m'"
proof (rule foldE_establishes [where P = "penalised (m_numDof b) i", OF run])
  show "penalised (m_numDof b) i m \<or> i \<in> set ks" using mem by simp
  show "\<And>x a a'. applyBoundaryCondition b x a = Inr a' \<Longrightarrow>
          penalised (m_numDof b) i a \<or> x = i \<Longrightarrow> penalised (m_numDof b) i a'"
    by (rule applyBoundaryCondition_step)
qed

lemma computeFMDK_boundaryCondition_step:
  assumes run: "computeFMDK_boundaryCondition b0 k b = Inr b'"
    and pre: "(vcoeff (m_f b) i = 0 \<and> vcoeff (m_M b) i = Fin 1000000000 \<and>
          penalised (m_numDof b0) i (m_D b) \<and> penalised (m_numDof b0) i (m_K b)) \<or> k = i"
  shows "vcoeff (m_f b') i = 0 \<and> vcoeff (m_M b') i = Fin 1000000000 \<and>
          penalised (m_numDof b0) i (m_D b') \<and> penalised (m_numDof b0) i (m_K b')"
proof -
  from run obtain M D K f where
      M: "vset (m_M b) k (Fin 1000000000) = Inr M"
    and D: "applyBoundaryCondition b0 k (m_D b) = Inr D"
    and K: "applyBoundaryCondition b0 k (m_K b) = Inr K"
    and f: "vset (m_f b) k 0 = Inr f"
    and b': "b' = b\<lparr>m_f := f, m_M := M, m_D := D, m_K := K\<rparr>"
    unfolding computeFMDK_boundaryCondition_def by (auto simp: bindE_eq_Inr)
  from pre have "vcoeff (m_f b) i = 0 \<or> k = i" by blast
  then have 1: "vcoeff f i = 0" by (rule vset_step [OF f])
  from pre have "vcoeff (m_M b) i = Fin 1000000000 \<or> k = i" by blast
  then have 2: "vcoeff M i = Fin 1000000000" by (rule vset_step [OF M])
  from pre have "penalised (m_numDof b0) i (m_D b) \<or> k = i" by blast
  then have 3: "penalised (m_numDof b0) i D" by (rule applyBoundaryCondition_step [OF D])
  from pre have "penalised (m_numDof b0) i (m_K b) \<or> k = i" by blast
  then have 4: "penalised (m_numDof b0) i K" by (rule applyBoundaryCondition_step [OF K])
  from 1 2 3 4 show ?thesis by (simp add: b')
qed

lemma computeFMDK_boundaryCondition_loop:
  assumes run: "foldE (computeFMDK_boundaryCondition b0) ks b = Inr b'" and mem: "i \<in> set ks"
  shows "vcoeff (m_f b') i = 0 \<and> vcoeff (m_M b') i = Fin 1000000000 \<and>
          penalised (m_numDof b0) i (m_D b') \<and> penalised (m_numDof b0) i (m_K b')"
proof (rule foldE_establishes [where P = "\<lambda>b. vcoeff (m_f b) i = 0 \<and>
          vcoeff (m_M b) i = Fin 1000000000 \<and>
          penalised (m_numDof b0) i (m_D b) \<and> penalised (m_numDof b0) i (m_K b)", OF run])
  show "(vcoeff (m_f b) i = 0 \<and> vcoeff (m_M b) i = Fin 1000000000 \<and>
          penalised (m_numDof b0) i (m_D b) \<and> penalised (m_numDof b0) i (m_K b)) \<or> i \<in> set ks"
    using mem by simp
  show "\<And>x a a'. computeFMDK_boundaryCondition b0 x a = Inr a' \<Longrightarrow>
      (vcoeff (m_f a) i = 0 \<and> vcoeff (m_M a) i = Fin 1000000000 \<and>
          penalised (m_numDof b0) i (m_D a) \<and> penalised (m_numDof b0) i (m_K a)) \<or> x = i \<Longrightarrow>
      vcoeff (m_f a') i = 0 \<and> vcoeff (m_M a') i = Fin 1000000000 \<and>
          penalised (m_numDof b0) i (m_D a') \<and> penalised (m_numDof b0) i (m_K a')"
    by (rule computeFMDK_boundaryCondition_step)
qed

lemma computeM_numDof: "computeM b st = Inr b1 \<Longrightarrow> m_numDof b1 = m_numDof b"
  unfolding computeM_def Let_def by (auto simp: bindE_eq_Inr)

lemma computeFMDK_assemble_numDof:
  assumes "computeFMDK_assemble b st = Inr b2"
  shows "m_numDof b2 = m_numDof b"
proof -
  from assms obtain b1 f D K where "computeM
      (b\<lparr>m_f := resizeVector (m_f b) (getNumDof st) True,
         m_M := resizeVector (m_M b) (getNumDof st) False,
         m_D := resizeMatrix (m_D b) (getNumDof st) (getNumDof st) True,
         m_K := resizeMatrix (m_K b) (getNumDof st) (getNumDof st) True\<rparr>) st = Inr b1"
    and "b2 = b1\<lparr>m_f := f, m_D := D, m_K := K\<rparr>"
    unfolding computeFMDK_assemble_def Let_def
    by (auto simp: bindE_eq_Inr split: prod.splits)
  then show ?thesis by (auto dest: computeM_numDof)
qed

lemma computeFMDK_penalised:
  assumes run: "computeFMDK b st = Inr b'" and mem: "i \<in> set (boundaryConditions st)"
  shows "vcoeff (m_f b') i = 0 \<and> vcoeff (m_M b') i = Fin 1000000000 \<and>
          penalised (m_numDof b) i (m_D b') \<and> penalised (m_numDof b) i (m_K b')"
proof -
  from run obtain b2 f4 where asm: "computeFMDK_assemble b st = Inr b2"
    and loop: "foldE (computeFMDK_boundaryCondition b2) (boundaryConditions st)
                 (b2\<lparr>m_f := f4\<rparr>) = Inr b'"
    unfolding computeFMDK_def by (auto simp: bindE_eq_Inr)
  from computeFMDK_boundaryCondition_loop [OF loop mem] computeFMDK_assemble_numDof [OF asm]
  show ?thesis by simp
qed

lemma computeF_zeroed:
  assumes run: "computeF b st = Inr b'" and mem: "i \<in> set (boundaryConditions st)"
  shows "vcoeff (m_f b') i = 0"
proof -
  from run obtain f3 f4 where
      loop: "foldE (\<lambda>k f. vset f k 0) (boundaryConditions st) f3 = Inr f4"
    and b': "b' = b\<lparr>m_f := f4\<rparr>"
    unfolding computeF_def Let_def by (auto simp: bindE_eq_Inr)
  from vset_loop [OF loop mem] show ?thesis by (simp add: b')
qed

lemma computeM_penalised:
  assumes run: "computeM b st = Inr b'" and mem: "i \<in> set (boundaryConditions st)"
  shows "vcoeff (m_M b') i = Fin 1000000000"
proof -
  from run obtain d1 d2 where
      loop: "foldE (\<lambda>k d. vset d k (Fin 1000000000)) (boundaryConditions st) d1 = Inr d2"
    and b': "b' = b\<lparr>m_M := d2\<rparr>"
    unfolding computeM_def Let_def by (auto simp: bindE_eq_Inr)
  from vset_loop [OF loop mem] show ?thesis by (simp add: b')
qed

lemma computeD_penalised:
  assumes run: "computeD b st = Inr b'" and mem: "i \<in> set (boundaryConditions st)"
  shows "penalised (m_numDof b) i (m_D b')"
proof -
  from run obtain D3 D4 where
      loop: "foldE (applyBoundaryCondition b) (boundaryConditions st) D3 = Inr D4"
    and b': "b' = b\<lparr>m_D := D4\<rparr>"
    unfolding computeD_def Let_def by (auto simp: bindE_eq_Inr)
  from applyBoundaryCondition_loop [OF loop mem] show ?thesis by (simp add: b')
qed

lemma computeK_penalised:
  assumes run: "computeK b st = Inr b'" and mem: "i \<in> set (boundaryConditions st)"
  shows "penalised (m_numDof b) i (m_K b')"
proof -
  from run obtain K1 K2 where
      loop: "foldE (applyBoundaryCondition b) (boundaryConditions st) K1 = Inr K2"
    and b': "b' = b\<lparr>m_K := K2\<rparr>"
    unfolding computeK_def Let_def by (auto simp: bindE_eq_Inr)
  from applyBoundaryCondition_loop [OF loop mem] show ?thesis by (simp add: b')
qed

subsection \<open>The dimensions of the assembled matrices\<close>

text \<open>
  A matrix keeps its dimensions through the steps of the assembly, as far as the springs
  keep them.
\<close>

lemma applyBoundaryCondition_dimensions:
  "applyBoundaryCondition b k m = Inr m' \<Longrightarrow> rows m' = rows m \<and> cols m' = cols m"
  by (auto simp: applyBoundaryCondition_def blockSetZero_def mset_def bindE_eq_Inr
        split: if_splits)

lemma applyBoundaryCondition_loop_dimensions:
  assumes run: "foldE (applyBoundaryCondition b) ks m = Inr m'"
  shows "rows m' = rows m \<and> cols m' = cols m"
proof (rule foldE_preserves [where P = "\<lambda>a. rows a = rows m \<and> cols a = cols m", OF run])
  show "rows m = rows m \<and> cols m = cols m" by simp
  show "\<And>x a a'. x \<in> set ks \<Longrightarrow> applyBoundaryCondition b x a = Inr a' \<Longrightarrow>
          rows a = rows m \<and> cols a = cols m \<Longrightarrow> rows a' = rows m \<and> cols a' = cols m"
    by (auto dest: applyBoundaryCondition_dimensions)
qed

lemma addStiffness_loop_dimensions:
  assumes run: "foldE (\<lambda>spring K. addStiffness spring st K c) ss m = Inr m'"
    and keeps: "\<forall>s\<in>set ss. keepsDimensions s st"
  shows "rows m' = rows m \<and> cols m' = cols m"
proof (rule foldE_preserves [where P = "\<lambda>a. rows a = rows m \<and> cols a = cols m", OF run])
  show "rows m = rows m \<and> cols m = cols m" by simp
  show "\<And>x a a'. x \<in> set ss \<Longrightarrow> addStiffness x st a c = Inr a' \<Longrightarrow>
          rows a = rows m \<and> cols a = cols m \<Longrightarrow> rows a' = rows m \<and> cols a' = cols m"
    using keeps unfolding keepsDimensions_def by metis
qed

lemma addDamping_loop_dimensions:
  assumes run: "foldE (\<lambda>spring D. addDamping spring st D c) ss m = Inr m'"
    and keeps: "\<forall>s\<in>set ss. keepsDimensions s st"
  shows "rows m' = rows m \<and> cols m' = cols m"
proof (rule foldE_preserves [where P = "\<lambda>a. rows a = rows m \<and> cols a = cols m", OF run])
  show "rows m = rows m \<and> cols m = cols m" by simp
  show "\<And>x a a'. x \<in> set ss \<Longrightarrow> addDamping x st a c = Inr a' \<Longrightarrow>
          rows a = rows m \<and> cols a = cols m \<Longrightarrow> rows a' = rows m \<and> cols a' = cols m"
    using keeps unfolding keepsDimensions_def by metis
qed

lemma addFDK_loop_dimensions:
  assumes run: "foldE (\<lambda>spring (f, D, K). addFDK spring st f D K) ss (f0, D0, K0)
                  = Inr (f', D', K')"
    and keeps: "\<forall>s\<in>set ss. keepsDimensions s st"
  shows "rows D' = rows D0 \<and> cols D' = cols D0 \<and> rows K' = rows K0 \<and> cols K' = cols K0"
proof -
  have "(\<lambda>(f, D, K). rows D = rows D0 \<and> cols D = cols D0 \<and>
           rows K = rows K0 \<and> cols K = cols K0) (f', D', K')"
  proof (rule foldE_preserves [OF run])
    show "(\<lambda>(f, D, K). rows D = rows D0 \<and> cols D = cols D0 \<and>
           rows K = rows K0 \<and> cols K = cols K0) (f0, D0, K0)" by simp
    fix x a a'
    assume x: "x \<in> set ss" and step: "(\<lambda>(f, D, K). addFDK x st f D K) a = Inr a'"
      and pre: "(\<lambda>(f, D, K). rows D = rows D0 \<and> cols D = cols D0 \<and>
           rows K = rows K0 \<and> cols K = cols K0) a"
    obtain f D K where a: "a = (f, D, K)" by (cases a)
    obtain f1 D1 K1 where a': "a' = (f1, D1, K1)" by (cases a')
    from x keeps have "keepsDimensions x st" by blast
    with step have "rows D1 = rows D \<and> cols D1 = cols D \<and> rows K1 = rows K \<and> cols K1 = cols K"
      unfolding keepsDimensions_def a a' by simp
    with pre show "(\<lambda>(f, D, K). rows D = rows D0 \<and> cols D = cols D0 \<and>
           rows K = rows K0 \<and> cols K = cols K0) a'"
      by (simp add: a a')
  qed
  then show ?thesis by simp
qed

lemma massLoop_dimensions:
  assumes run: "foldE (\<lambda>massId D.
                    bindE (getMass b massId) (\<lambda>mass.
                    bindE (setSubVector (vscale (Vector3d 1 1 1) (r * mass)) massId 3 (diagonal D))
                      (\<lambda>Ddiagonal. Inr (setDiagonal D Ddiagonal)))) xs m = Inr m'"
  shows "rows m' = rows m \<and> cols m' = cols m"
proof (rule foldE_preserves [where P = "\<lambda>a. rows a = rows m \<and> cols a = cols m", OF run])
  show "rows m = rows m \<and> cols m = cols m" by simp
  show "\<And>x a a'. x \<in> set xs \<Longrightarrow>
          bindE (getMass b x) (\<lambda>mass.
            bindE (setSubVector (vscale (Vector3d 1 1 1) (r * mass)) x 3 (diagonal a))
              (\<lambda>Ddiagonal. Inr (setDiagonal a Ddiagonal))) = Inr a' \<Longrightarrow>
          rows a = rows m \<and> cols a = cols m \<Longrightarrow> rows a' = rows m \<and> cols a' = cols m"
    by (auto simp: bindE_eq_Inr Let_def setDiagonal_def)
qed

lemma computeD_dimensions:
  assumes run: "computeD b st = Inr b'"
    and keeps: "\<forall>s\<in>set (m_springs b). keepsDimensions s st"
  shows "rows (m_D b') = getNumDof st \<and> cols (m_D b') = getNumDof st"
proof -
  let ?D0 = "resizeMatrix (m_D b) (getNumDof st) (getNumDof st) True"
  from run obtain D1 D2 D3 D4 where
      1: "(if massCoefficient b \<noteq> 0
           then foldE (\<lambda>massId D.
                    bindE (getMass b massId) (\<lambda>mass.
                    bindE (setSubVector (vscale (Vector3d 1 1 1) (massCoefficient b * mass))
                             massId 3 (diagonal D))
                      (\<lambda>Ddiagonal. Inr (setDiagonal D Ddiagonal))))
                  [0..<getNumMasses b] ?D0
           else Inr ?D0) = Inr D1"
    and 2: "(if stiffnessCoefficient b \<noteq> 0
             then foldE (\<lambda>spring D. addStiffness spring st D (stiffnessCoefficient b))
                    (m_springs b) D1
             else Inr D1) = Inr D2"
    and 3: "foldE (\<lambda>spring D. addDamping spring st D 1) (m_springs b) D2 = Inr D3"
    and 4: "foldE (applyBoundaryCondition b) (boundaryConditions st) D3 = Inr D4"
    and b': "b' = b\<lparr>m_D := D4\<rparr>"
    unfolding computeD_def Let_def bindE_eq_Inr by blast
  have 0: "rows ?D0 = getNumDof st \<and> cols ?D0 = getNumDof st"
    by (simp add: resizeMatrix_def Let_def)
  from 1 have d1: "rows D1 = rows ?D0 \<and> cols D1 = cols ?D0"
    by (auto split: if_splits dest: massLoop_dimensions)
  from 2 keeps have d2: "rows D2 = rows D1 \<and> cols D2 = cols D1"
    by (auto split: if_splits dest: addStiffness_loop_dimensions)
  from 3 keeps have d3: "rows D3 = rows D2 \<and> cols D3 = cols D2"
    by (auto dest: addDamping_loop_dimensions)
  from 4 have d4: "rows D4 = rows D3 \<and> cols D4 = cols D3"
    by (rule applyBoundaryCondition_loop_dimensions)
  from 0 d1 d2 d3 d4 show ?thesis by (simp add: b')
qed

lemma computeK_dimensions:
  assumes run: "computeK b st = Inr b'"
    and keeps: "\<forall>s\<in>set (m_springs b). keepsDimensions s st"
  shows "rows (m_K b') = getNumDof st \<and> cols (m_K b') = getNumDof st"
proof -
  let ?K0 = "resizeMatrix (m_K b) (getNumDof st) (getNumDof st) True"
  from run obtain K1 K2 where
      1: "foldE (\<lambda>spring K. addStiffness spring st K 1) (m_springs b) ?K0 = Inr K1"
    and 2: "foldE (applyBoundaryCondition b) (boundaryConditions st) K1 = Inr K2"
    and b': "b' = b\<lparr>m_K := K2\<rparr>"
    unfolding computeK_def Let_def bindE_eq_Inr by blast
  have 0: "rows ?K0 = getNumDof st \<and> cols ?K0 = getNumDof st"
    by (simp add: resizeMatrix_def Let_def)
  from 1 keeps have d1: "rows K1 = rows ?K0 \<and> cols K1 = cols ?K0"
    by (auto dest: addStiffness_loop_dimensions)
  from 2 have d2: "rows K2 = rows K1 \<and> cols K2 = cols K1"
    by (rule applyBoundaryCondition_loop_dimensions)
  from 0 d1 d2 show ?thesis by (simp add: b')
qed

lemma computeM_frame: "computeM b st = Inr b1 \<Longrightarrow> \<exists>d. b1 = b\<lparr>m_M := d\<rparr>"
  unfolding computeM_def Let_def by (auto simp: bindE_eq_Inr)

lemma computeFMDK_assemble_dimensions:
  assumes run: "computeFMDK_assemble b st = Inr b2"
    and keeps: "\<forall>s\<in>set (m_springs b). keepsDimensions s st"
  shows "rows (m_D b2) = getNumDof st \<and> cols (m_D b2) = getNumDof st \<and>
         rows (m_K b2) = getNumDof st \<and> cols (m_K b2) = getNumDof st"
proof -
  let ?n = "getNumDof st"
  let ?b0 = "b\<lparr>m_f := resizeVector (m_f b) ?n True,
                 m_M := resizeVector (m_M b) ?n False,
                 m_D := resizeMatrix (m_D b) ?n ?n True,
                 m_K := resizeMatrix (m_K b) ?n ?n True\<rparr>"
  from run obtain b1 f2 D2 K2 D3 D4 f3 where
      M: "computeM ?b0 st = Inr b1"
    and S: "foldE (\<lambda>spring (f, D, K). addFDK spring st f D K) (m_springs b1)
              (m_f b1, m_D b1, m_K b1) = Inr (f2, D2, K2)"
    and 3: "(if massCoefficient b1 \<noteq> 0
             then bindE (vadd_assign (diagonal D2) (vscale (m_M b1) (massCoefficient b1)))
                    (\<lambda>Ddiagonal. Inr (setDiagonal D2 Ddiagonal))
             else Inr D2) = Inr D3"
    and 4: "(if stiffnessCoefficient b1 \<noteq> 0
             then madd_assign D3 (mscale K2 (stiffnessCoefficient b1))
             else Inr D3) = Inr D4"
    and b2: "b2 = b1\<lparr>m_f := f3, m_D := D4, m_K := K2\<rparr>"
    unfolding computeFMDK_assemble_def Let_def
    by (auto simp: bindE_eq_Inr split: prod.splits)
  from computeM_frame [OF M] obtain d where b1: "b1 = ?b0\<lparr>m_M := d\<rparr>" by blast
  have 0: "rows (m_D b1) = ?n \<and> cols (m_D b1) = ?n \<and> rows (m_K b1) = ?n \<and> cols (m_K b1) = ?n"
    by (simp add: b1 resizeMatrix_def Let_def)
  have springs: "m_springs b1 = m_springs b" by (simp add: b1)
  from addFDK_loop_dimensions [OF S] keeps springs
  have s: "rows D2 = rows (m_D b1) \<and> cols D2 = cols (m_D b1) \<and>
           rows K2 = rows (m_K b1) \<and> cols K2 = cols (m_K b1)"
    by simp
  from 3 have d3: "rows D3 = rows D2 \<and> cols D3 = cols D2"
    by (auto simp: bindE_eq_Inr setDiagonal_def split: if_splits)
  from 4 have d4: "rows D4 = rows D3 \<and> cols D4 = cols D3"
    by (auto simp: madd_assign_def split: if_splits)
  from 0 s d3 d4 show ?thesis by (simp add: b2)
qed

lemma computeFMDK_boundaryCondition_dimensions:
  assumes run: "computeFMDK_boundaryCondition b0 k b = Inr b'"
  shows "rows (m_D b') = rows (m_D b) \<and> cols (m_D b') = cols (m_D b) \<and>
         rows (m_K b') = rows (m_K b) \<and> cols (m_K b') = cols (m_K b)"
proof -
  from run obtain M D K f where
      D: "applyBoundaryCondition b0 k (m_D b) = Inr D"
    and K: "applyBoundaryCondition b0 k (m_K b) = Inr K"
    and b': "b' = b\<lparr>m_f := f, m_M := M, m_D := D, m_K := K\<rparr>"
    unfolding computeFMDK_boundaryCondition_def by (auto simp: bindE_eq_Inr)
  from applyBoundaryCondition_dimensions [OF D] applyBoundaryCondition_dimensions [OF K]
  show ?thesis by (simp add: b')
qed

lemma computeFMDK_dimensions:
  assumes run: "computeFMDK b st = Inr b'"
    and keeps: "\<forall>s\<in>set (m_springs b). keepsDimensions s st"
  shows "rows (m_D b') = getNumDof st \<and> cols (m_D b') = getNumDof st \<and>
         rows (m_K b') = getNumDof st \<and> cols (m_K b') = getNumDof st"
proof -
  from run obtain b2 f4 where asm: "computeFMDK_assemble b st = Inr b2"
    and loop: "foldE (computeFMDK_boundaryCondition b2) (boundaryConditions st)
                 (b2\<lparr>m_f := f4\<rparr>) = Inr b'"
    unfolding computeFMDK_def by (auto simp: bindE_eq_Inr)
  note start = computeFMDK_assemble_dimensions [OF asm keeps]
  show ?thesis
  proof (rule foldE_preserves [where P = "\<lambda>a. rows (m_D a) = getNumDof st \<and>
      cols (m_D a) = getNumDof st \<and> rows (m_K a) = getNumDof st \<and> cols (m_K a) = getNumDof st",
      OF loop])
    show "rows (m_D (b2\<lparr>m_f := f4\<rparr>)) = getNumDof st \<and>
      cols (m_D (b2\<lparr>m_f := f4\<rparr>)) = getNumDof st \<and>
      rows (m_K (b2\<lparr>m_f := f4\<rparr>)) = getNumDof st \<and>
      cols (m_K (b2\<lparr>m_f := f4\<rparr>)) = getNumDof st"
      using start by simp
    show "\<And>x a a'. x \<in> set (boundaryConditions st) \<Longrightarrow>
        computeFMDK_boundaryCondition b2 x a = Inr a' \<Longrightarrow>
        rows (m_D a) = getNumDof st \<and> cols (m_D a) = getNumDof st \<and>
        rows (m_K a) = getNumDof st \<and> cols (m_K a) = getNumDof st \<Longrightarrow>
        rows (m_D a') = getNumDof st \<and> cols (m_D a') = getNumDof st \<and>
        rows (m_K a') = getNumDof st \<and> cols (m_K a') = getNumDof st"
      by (auto dest: computeFMDK_boundaryCondition_dimensions)
  qed
qed

lemma addBlock_dimensions:
  "addBlock sub r c r' c' n m = Inr m' \<Longrightarrow> rows m' = rows m \<and> cols m' = cols m"
  by (auto simp: addBlock_def split: if_splits)

lemma addSubMatrix_dimensions:
  assumes run: "addSubMatrix sub blockIds blockSize m = Inr m'"
  shows "rows m' = rows m \<and> cols m' = cols m"
proof (rule foldE_preserves [where P = "\<lambda>a. rows a = rows m \<and> cols a = cols m",
    OF run [unfolded addSubMatrix_def]])
  show "rows m = rows m \<and> cols m = cols m" by simp
  fix x a a'
  assume inner: "foldE (\<lambda>block1.
           addBlock sub (blockSize * x) (blockSize * block1)
             (blockSize * (blockIds ! x)) (blockSize * (blockIds ! block1)) blockSize)
          [0..<length blockIds] a = Inr a'"
    and pre: "rows a = rows m \<and> cols a = cols m"
  have "rows a' = rows a \<and> cols a' = cols a"
  proof (rule foldE_preserves [where P = "\<lambda>a'. rows a' = rows a \<and> cols a' = cols a", OF inner])
    show "rows a = rows a \<and> cols a = cols a" by simp
    show "\<And>y c c'. y \<in> set [0..<length blockIds] \<Longrightarrow>
        addBlock sub (blockSize * x) (blockSize * y)
          (blockSize * (blockIds ! x)) (blockSize * (blockIds ! y)) blockSize c = Inr c' \<Longrightarrow>
        rows c = rows a \<and> cols c = cols a \<Longrightarrow> rows c' = rows a \<and> cols c' = cols a"
      by (auto dest: addBlock_dimensions)
  qed
  with pre show "rows a' = rows m \<and> cols a' = cols m" by simp
qed

lemma elementSpring_keepsDimensions: "keepsDimensions (elementSpring e) st"
  unfolding keepsDimensions_def elementSpring_def
  by (auto simp: element_addDamping_def element_addStiffness_def element_addFDK_def
        bindE_eq_Inr dest: addSubMatrix_dimensions)

text \<open>
  A boundary condition that was applied is the index of an entry of the vector or of the
  matrix it was applied to.
\<close>

lemma vset_index: "vset v k a = Inr v' \<Longrightarrow> k < vsize v' \<and> vsize v' = vsize v"
  by (auto simp: vset_def split: if_splits)

lemma vset_loop_index:
  assumes run: "foldE (\<lambda>k v. vset v k a) ks v = Inr v'" and mem: "i \<in> set ks"
  shows "i < vsize v'"
proof (rule foldE_establishes [where P = "\<lambda>v. i < vsize v", OF run])
  show "i < vsize v \<or> i \<in> set ks" using mem by simp
  show "\<And>x a' a''. vset a' x a = Inr a'' \<Longrightarrow> i < vsize a' \<or> x = i \<Longrightarrow> i < vsize a''"
    by (auto dest: vset_index)
qed

lemma applyBoundaryCondition_index:
  "applyBoundaryCondition b k m = Inr m' \<Longrightarrow> k < rows m' \<and> k < cols m'"
  by (auto simp: applyBoundaryCondition_def blockSetZero_def mset_def bindE_eq_Inr
        split: if_splits)

lemma applyBoundaryCondition_loop_index:
  assumes run: "foldE (applyBoundaryCondition b) ks m = Inr m'" and mem: "i \<in> set ks"
  shows "i < rows m' \<and> i < cols m'"
proof (rule foldE_establishes [where P = "\<lambda>m. i < rows m \<and> i < cols m", OF run])
  show "(i < rows m \<and> i < cols m) \<or> i \<in> set ks" using mem by simp
  show "\<And>x a a'. applyBoundaryCondition b x a = Inr a' \<Longrightarrow>
          (i < rows a \<and> i < cols a) \<or> x = i \<Longrightarrow> i < rows a' \<and> i < cols a'"
    using applyBoundaryCondition_index applyBoundaryCondition_dimensions by metis
qed

lemma computeFMDK_boundaryCondition_index:
  assumes run: "computeFMDK_boundaryCondition b0 k b = Inr b'"
    and pre: "(i < vsize (m_f b) \<and> i < vsize (m_M b) \<and> i < rows (m_D b) \<and> i < cols (m_D b) \<and>
          i < rows (m_K b) \<and> i < cols (m_K b)) \<or> k = i"
  shows "i < vsize (m_f b') \<and> i < vsize (m_M b') \<and> i < rows (m_D b') \<and> i < cols (m_D b') \<and>
          i < rows (m_K b') \<and> i < cols (m_K b')"
proof -
  from run obtain M D K f where
      M: "vset (m_M b) k (Fin 1000000000) = Inr M"
    and D: "applyBoundaryCondition b0 k (m_D b) = Inr D"
    and K: "applyBoundaryCondition b0 k (m_K b) = Inr K"
    and f: "vset (m_f b) k 0 = Inr f"
    and b': "b' = b\<lparr>m_f := f, m_M := M, m_D := D, m_K := K\<rparr>"
    unfolding computeFMDK_boundaryCondition_def by (auto simp: bindE_eq_Inr)
  from pre vset_index [OF f] have 1: "i < vsize f" by auto
  from pre vset_index [OF M] have 2: "i < vsize M" by auto
  from pre applyBoundaryCondition_index [OF D] applyBoundaryCondition_dimensions [OF D]
  have 3: "i < rows D \<and> i < cols D" by auto
  from pre applyBoundaryCondition_index [OF K] applyBoundaryCondition_dimensions [OF K]
  have 4: "i < rows K \<and> i < cols K" by auto
  from 1 2 3 4 show ?thesis by (simp add: b')
qed

lemma computeFMDK_index:
  assumes run: "computeFMDK b st = Inr b'" and mem: "i \<in> set (boundaryConditions st)"
  shows "i < vsize (m_f b') \<and> i < vsize (m_M b') \<and> i < rows (m_D b') \<and> i < cols (m_D b') \<and>
          i < rows (m_K b') \<and> i < cols (m_K b')"
proof -
  from run obtain b2 f4 where
      loop: "foldE (computeFMDK_boundaryCondition b2) (boundaryConditions st)
                 (b2\<lparr>m_f := f4\<rparr>) = Inr b'"
    unfolding computeFMDK_def by (auto simp: bindE_eq_Inr)
  show ?thesis
  proof (rule foldE_establishes [where P = "\<lambda>b. i < vsize (m_f b) \<and> i < vsize (m_M b) \<and>
      i < rows (m_D b) \<and> i < cols (m_D b) \<and> i < rows (m_K b) \<and> i < cols (m_K b)", OF loop])
    show "(i < vsize (m_f (b2\<lparr>m_f := f4\<rparr>)) \<and> i < vsize (m_M (b2\<lparr>m_f := f4\<rparr>)) \<and>
      i < rows (m_D (b2\<lparr>m_f := f4\<rparr>)) \<and> i < cols (m_D (b2\<lparr>m_f := f4\<rparr>)) \<and>
      i < rows (m_K (b2\<lparr>m_f := f4\<rparr>)) \<and> i < cols (m_K (b2\<lparr>m_f := f4\<rparr>))) \<or>
      i \<in> set (boundaryConditions st)"
      using mem by simp
    show "\<And>x a a'. computeFMDK_boundaryCondition b2 x a = Inr a' \<Longrightarrow>
        (i < vsize (m_f a) \<and> i < vsize (m_M a) \<and> i < rows (m_D a) \<and> i < cols (m_D a) \<and>
          i < rows (m_K a) \<and> i < cols (m_K a)) \<or> x = i \<Longrightarrow>
        i < vsize (m_f a') \<and> i < vsize (m_M a') \<and> i < rows (m_D a') \<and> i < cols (m_D a') \<and>
          i < rows (m_K a') \<and> i < cols (m_K a')"
      by (rule computeFMDK_boundaryCondition_index)
  qed
qed

lemma computeF_index:
  assumes run: "computeF b st = Inr b'" and mem: "i \<in> set (boundaryConditions st)"
  shows "i < vsize (m_f b')"
proof -
  from run obtain f3 f4 where
      loop: "foldE (\<lambda>k f. vset f k 0) (boundaryConditions st) f3 = Inr f4"
    and b': "b' = b\<lparr>m_f := f4\<rparr>"
    unfolding computeF_def Let_def by (auto simp: bindE_eq_Inr)
  from vset_loop_index [OF loop mem] show ?thesis by (simp add: b')
qed

lemma computeM_index:
  assumes run: "computeM b st = Inr b'" and mem: "i \<in> set (boundaryConditions st)"
  shows "i < vsize (m_M b')"
proof -
  from run obtain d1 d2 where
      loop: "foldE (\<lambda>k d. vset d k (Fin 1000000000)) (boundaryConditions st) d1 = Inr d2"
    and b': "b' = b\<lparr>m_M := d2\<rparr>"
    unfolding computeM_def Let_def by (auto simp: bindE_eq_Inr)
  from vset_loop_index [OF loop mem] show ?thesis by (simp add: b')
qed

lemma computeD_index:
  assumes run: "computeD b st = Inr b'" and mem: "i \<in> set (boundaryConditions st)"
  shows "i < rows (m_D b') \<and> i < cols (m_D b')"
proof -
  from run obtain D3 D4 where
      loop: "foldE (applyBoundaryCondition b) (boundaryConditions st) D3 = Inr D4"
    and b': "b' = b\<lparr>m_D := D4\<rparr>"
    unfolding computeD_def Let_def by (auto simp: bindE_eq_Inr)
  from applyBoundaryCondition_loop_index [OF loop mem] show ?thesis by (simp add: b')
qed

lemma computeK_index:
  assumes run: "computeK b st = Inr b'" and mem: "i \<in> set (boundaryConditions st)"
  shows "i < rows (m_K b') \<and> i < cols (m_K b')"
proof -
  from run obtain K1 K2 where
      loop: "foldE (applyBoundaryCondition b) (boundaryConditions st) K1 = Inr K2"
    and b': "b' = b\<lparr>m_K := K2\<rparr>"
    unfolding computeK_def Let_def by (auto simp: bindE_eq_Inr)
  from applyBoundaryCondition_loop_index [OF loop mem] show ?thesis by (simp add: b')
qed

subsection \<open>The per-tick entry points\<close>

text \<open>A state is valid when every position and every velocity is finite.\<close>

lemma allFinite_iff: "allFinite f n \<longleftrightarrow> (\<forall>i<n. isfinite (f i))"
  by (induction n) (auto simp: less_Suc_eq)

lemma isValidState_iff:
  "isValidState st \<longleftrightarrow>
     (\<forall>i<vsize (positions st). isfinite (vcoeff (positions st) i)) \<and>
     (\<forall>i<vsize (velocities st). isfinite (vcoeff (velocities st) i))"
  by (simp add: isValidState_def isValid_def allFinite_iff)

text \<open>
  C10. On an inactive body each of \<^verbatim>\<open>beforeUpdate\<close>, \<^verbatim>\<open>update\<close>, \<^verbatim>\<open>afterUpdate\<close> and
  \<^verbatim>\<open>applyCorrection\<close> returns at once and leaves the whole body as it was: the state
  pointers and the state objects, the solver, the active flag and every other member.
\<close>

theorem inactive_body_is_frozen:
  "\<not> isActive b \<Longrightarrow>
     beforeUpdate makeSolver dt b = Inr b \<and>
     update solve dt b = Inr b \<and>
     afterUpdate resetState dt b = Inr b \<and>
     applyCorrection resetState dt deltaVelocity b = Inr b"
  by (simp add: beforeUpdate_def update_def afterUpdate_def applyCorrection_def)

theorem inactive_body_is_frozen_witness:
  "\<not> isActive (twoMassBody\<lparr>m_isActive := False\<rparr>) \<and>
   beforeUpdate (\<lambda>b. 7) (Fin (1 / 1000)) (twoMassBody\<lparr>m_isActive := False\<rparr>)
     = Inr (twoMassBody\<lparr>m_isActive := False\<rparr>) \<and>
   update countingSolve (Fin (1 / 1000)) (twoMassBody\<lparr>m_isActive := False\<rparr>)
     = Inr (twoMassBody\<lparr>m_isActive := False\<rparr>) \<and>
   afterUpdate DeformableRepresentation_resetState (Fin (1 / 1000))
     (twoMassBody\<lparr>m_isActive := False\<rparr>) = Inr (twoMassBody\<lparr>m_isActive := False\<rparr>) \<and>
   applyCorrection DeformableRepresentation_resetState (Fin (1 / 1000)) (vzero 6)
     (twoMassBody\<lparr>m_isActive := False\<rparr>) = Inr (twoMassBody\<lparr>m_isActive := False\<rparr>)"
proof -
  have h: "\<not> isActive (twoMassBody\<lparr>m_isActive := False\<rparr>)"
    by (simp add: isActive_def)
  from inactive_body_is_frozen [OF h] h show ?thesis by blast
qed

text \<open>
  C3. On an active body whose solver and initial state are set and whose current and new
  state are two distinct objects, \<^verbatim>\<open>update\<close> calls \<open>solve\<close> once, on the current state
  and the new state object, and then only exchanges pointers: the previous pointer
  designates the object that was current, whose contents are unchanged; the current
  pointer designates the object the solver filled in; the new pointer takes the old
  previous object. No state object other than the one handed to the solver is written,
  and the solver object is the one left by that single call.
\<close>

theorem update_double_buffers:
  assumes act: "isActive b"
    and sol: "m_odeSolver b = Some s"
    and ini: "m_initialState b = Some init"
    and cur: "m_currentState b = Some c"
    and new: "m_newState b = Some n"
    and dist: "c \<noteq> n"
    and res: "solve s dt (store b c) (store b n) = (s', filled)"
  shows "\<exists>b'. update solve dt b = Inr b' \<and>
           b' = b\<lparr>m_odeSolver := Some s', store := (store b)(n := filled),
                  m_previousState := Some c, m_currentState := Some n,
                  m_newState := m_previousState b\<rparr> \<and>
           m_previousState b' = Some c \<and> store b' c = store b c \<and>
           m_currentState b' = Some n \<and> store b' n = filled \<and>
           m_newState b' = m_previousState b \<and>
           m_odeSolver b' = Some s' \<and>
           (\<forall>a. a \<noteq> n \<longrightarrow> store b' a = store b a)"
  using assms by (simp add: update_def)

theorem update_double_buffers_witness:
  "isActive twoMassBody \<and> m_odeSolver twoMassBody = Some 0 \<and>
   m_currentState twoMassBody = Some 2 \<and> m_newState twoMassBody = Some 3 \<and>
   (\<exists>b'. update countingSolve (Fin (1 / 1000)) twoMassBody = Inr b' \<and>
      m_previousState b' = Some 2 \<and> store b' 2 = movingState \<and>
      m_currentState b' = Some 3 \<and> store b' 3 = movingState \<and>
      m_newState b' = Some 1 \<and> m_odeSolver b' = Some 1)"
proof -
  have act: "isActive twoMassBody" by (simp add: isActive_def twoMassBody_def)
  have sol: "m_odeSolver twoMassBody = Some 0" by (simp add: twoMassBody_def)
  have ini: "m_initialState twoMassBody = Some 0" by (simp add: twoMassBody_def)
  have cur: "m_currentState twoMassBody = Some 2" by (simp add: twoMassBody_def)
  have new: "m_newState twoMassBody = Some 3" by (simp add: twoMassBody_def)
  have dist: "(2::nat) \<noteq> 3" by simp
  have res: "countingSolve 0 (Fin (1 / 1000)) (store twoMassBody 2) (store twoMassBody 3)
      = (1, movingState)"
    by (simp add: countingSolve_def twoMassBody_def)
  from update_double_buffers [where solve = countingSolve and b = twoMassBody and s = 0
      and c = 2 and n = 3 and dt = "Fin (1 / 1000)" and s' = 1 and filled = movingState,
      OF act sol ini cur new dist res]
  obtain b' where "update countingSolve (Fin (1 / 1000)) twoMassBody = Inr b'"
    and "m_previousState b' = Some 2" and "store b' 2 = store twoMassBody 2"
    and "m_currentState b' = Some 3" and "store b' 3 = movingState"
    and "m_newState b' = m_previousState twoMassBody" and "m_odeSolver b' = Some 1"
    by blast
  moreover have "store twoMassBody 2 = movingState" "m_previousState twoMassBody = Some 1"
    by (simp_all add: twoMassBody_def)
  ultimately show ?thesis using act sol cur new by auto
qed

text \<open>
  C4. The current state is valid when all its positions and all its velocities are
  finite. On an active body with a current and a final state, \<^verbatim>\<open>afterUpdate\<close> returns a
  body in every case where \<^verbatim>\<open>resetState\<close> does. If the current state is valid it is
  copied into the final state and nothing else changes, so the body stays active. If a
  position or a velocity is not finite, the result is the body that \<^verbatim>\<open>resetState\<close>
  returns with the active flag cleared: the current state is not copied into the final
  state. With the reset of the spec, which copies the initial state into the current and
  the previous state, the body is then inactive, its current and previous states are the
  initial state again, and every other state object is as it was: so is the final state
  when it is an object of its own.
\<close>

theorem afterUpdate_validates:
  assumes act: "isActive b"
    and cur: "m_currentState b = Some c"
    and fin: "m_finalState b = Some f"
  shows "(isValidState (store b c) \<longleftrightarrow>
            (\<forall>i<vsize (positions (store b c)). isfinite (vcoeff (positions (store b c)) i)) \<and>
            (\<forall>i<vsize (velocities (store b c)). isfinite (vcoeff (velocities (store b c)) i))) \<and>
         (isValidState (store b c) \<longrightarrow>
            afterUpdate resetState dt b = Inr (b\<lparr>store := (store b)(f := store b c)\<rparr>)) \<and>
         (\<not> isValidState (store b c) \<longrightarrow> resetState b = Inr b1 \<longrightarrow>
            afterUpdate resetState dt b = Inr (b1\<lparr>m_isActive := False\<rparr>)) \<and>
         (\<not> isValidState (store b c) \<longrightarrow>
            m_initialState b = Some init \<longrightarrow> m_previousState b = Some p \<longrightarrow>
            (\<exists>b'. afterUpdate DeformableRepresentation_resetState dt b = Inr b' \<and>
                  b' = b\<lparr>store := (store b)(c := store b init, p := store b init),
                         m_isActive := False\<rparr> \<and>
                  \<not> isActive b' \<and> store b' c = store b init \<and> store b' p = store b init \<and>
                  (\<forall>a. a \<noteq> c \<and> a \<noteq> p \<longrightarrow> store b' a = store b a) \<and>
                  (f \<noteq> c \<and> f \<noteq> p \<longrightarrow> store b' f = store b f)))"
proof (rule conjI)
  show "isValidState (store b c) \<longleftrightarrow>
      (\<forall>i<vsize (positions (store b c)). isfinite (vcoeff (positions (store b c)) i)) \<and>
      (\<forall>i<vsize (velocities (store b c)). isfinite (vcoeff (velocities (store b c)) i))"
    by (rule isValidState_iff)
  show "(isValidState (store b c) \<longrightarrow>
            afterUpdate resetState dt b = Inr (b\<lparr>store := (store b)(f := store b c)\<rparr>)) \<and>
         (\<not> isValidState (store b c) \<longrightarrow> resetState b = Inr b1 \<longrightarrow>
            afterUpdate resetState dt b = Inr (b1\<lparr>m_isActive := False\<rparr>)) \<and>
         (\<not> isValidState (store b c) \<longrightarrow>
            m_initialState b = Some init \<longrightarrow> m_previousState b = Some p \<longrightarrow>
            (\<exists>b'. afterUpdate DeformableRepresentation_resetState dt b = Inr b' \<and>
                  b' = b\<lparr>store := (store b)(c := store b init, p := store b init),
                         m_isActive := False\<rparr> \<and>
                  \<not> isActive b' \<and> store b' c = store b init \<and> store b' p = store b init \<and>
                  (\<forall>a. a \<noteq> c \<and> a \<noteq> p \<longrightarrow> store b' a = store b a) \<and>
                  (f \<noteq> c \<and> f \<noteq> p \<longrightarrow> store b' f = store b f)))"
    using assms
    by (simp add: afterUpdate_def deactivateAndReset_def setIsActive_def isActive_def
          DeformableRepresentation_resetState_def)
qed

lemma isValidState_restState: "isValidState restState"
  by (simp add: isValidState_def isValid_def restState_def vzero_def numeral_eq_Suc zero_double_def)

lemma isValidState_movingState: "isValidState movingState"
  by (simp add: isValidState_def isValid_def movingState_def restState_def vzero_def numeral_eq_Suc zero_double_def)

lemma not_isValidState_invalidState: "\<not> isValidState invalidState"
  by (simp add: isValidState_def isValid_def invalidState_def restState_def vzero_def numeral_eq_Suc)

theorem afterUpdate_validates_witness:
  "isActive twoMassBody \<and> isValidState (store twoMassBody 2) \<and>
   afterUpdate DeformableRepresentation_resetState (Fin (1 / 1000)) twoMassBody
     = Inr (twoMassBody\<lparr>store := (store twoMassBody)(4 := movingState)\<rparr>) \<and>
   \<not> isValidState
       (store (twoMassBody\<lparr>store := (store twoMassBody)(2 := invalidState, 4 := movingState)\<rparr>) 2) \<and>
   (\<exists>b'. afterUpdate DeformableRepresentation_resetState (Fin (1 / 1000))
            (twoMassBody\<lparr>store := (store twoMassBody)(2 := invalidState, 4 := movingState)\<rparr>)
            = Inr b' \<and>
         \<not> isActive b' \<and> store b' 2 = restState \<and> store b' 1 = restState \<and>
         store b' 4 = movingState)"
proof -
  let ?bad = "twoMassBody\<lparr>store := (store twoMassBody)(2 := invalidState, 4 := movingState)\<rparr>"
  have act: "isActive twoMassBody" by (simp add: isActive_def twoMassBody_def)
  have cur: "m_currentState twoMassBody = Some 2" by (simp add: twoMassBody_def)
  have fin: "m_finalState twoMassBody = Some 4" by (simp add: twoMassBody_def)
  have st: "store twoMassBody 2 = movingState" by (simp add: twoMassBody_def)
  have valid: "isValidState (store twoMassBody 2)"
    by (simp add: st isValidState_movingState)
  have act': "isActive ?bad" by (simp add: isActive_def twoMassBody_def)
  have cur': "m_currentState ?bad = Some 2" by (simp add: twoMassBody_def)
  have fin': "m_finalState ?bad = Some 4" by (simp add: twoMassBody_def)
  have ini': "m_initialState ?bad = Some 0" by (simp add: twoMassBody_def)
  have prev': "m_previousState ?bad = Some 1" by (simp add: twoMassBody_def)
  have invalid: "\<not> isValidState (store ?bad 2)"
    by (simp add: not_isValidState_invalidState)
  have rest: "store ?bad 0 = restState" and final: "store ?bad 4 = movingState"
    by (simp_all add: twoMassBody_def)
  have distinct: "(4::nat) \<noteq> 2 \<and> (4::nat) \<noteq> 1" by simp
  from afterUpdate_validates [OF act cur fin, where resetState = DeformableRepresentation_resetState
      and dt = "Fin (1 / 1000)", THEN conjunct2] valid st
  have 1: "afterUpdate DeformableRepresentation_resetState (Fin (1 / 1000)) twoMassBody
     = Inr (twoMassBody\<lparr>store := (store twoMassBody)(4 := movingState)\<rparr>)"
    by simp
  from afterUpdate_validates [OF act' cur' fin', where init = 0 and p = 1 and dt = "Fin (1 / 1000)",
      THEN conjunct2]
    invalid ini' prev'
  obtain b' where run: "afterUpdate DeformableRepresentation_resetState (Fin (1 / 1000)) ?bad
        = Inr b'"
    and off: "\<not> isActive b'" and c: "store b' 2 = store ?bad 0" and p: "store b' 1 = store ?bad 0"
    and f: "(4::nat) \<noteq> 2 \<and> (4::nat) \<noteq> 1 \<longrightarrow> store b' 4 = store ?bad 4"
    by blast
  from run off c p f rest final distinct
  have 2: "\<exists>b'. afterUpdate DeformableRepresentation_resetState (Fin (1 / 1000)) ?bad = Inr b' \<and>
         \<not> isActive b' \<and> store b' 2 = restState \<and> store b' 1 = restState \<and>
         store b' 4 = movingState"
    by auto
  from act valid 1 invalid 2 show ?thesis by blast
qed

text \<open>
  C5. On an active body and for a correction of the size of the state, \<^verbatim>\<open>applyCorrection\<close>
  adds \<open>deltaVelocity * dt\<close> to the positions and \<open>deltaVelocity\<close> to the velocities of
  the current state, in the arithmetic of doubles: a product or a sum that leaves the
  range is an infinity. If the corrected state is valid, all its positions and velocities
  being finite, that is all. If it is not, the body is deactivated and reset by
  \<^verbatim>\<open>deactivateAndReset\<close>, which is what \<^verbatim>\<open>afterUpdate\<close> does on the corrected body;
  with the reset of the spec the body is then inactive, its current and previous states
  are the initial state again, and every other state object is as it was.
\<close>

theorem applyCorrection_corrects:
  assumes act: "isActive b"
    and cur: "m_currentState b = Some c"
    and sizex: "vsize deltaVelocity = vsize (positions (store b c))"
    and sizev: "vsize deltaVelocity = vsize (velocities (store b c))"
    and st': "st' = (store b c)
        \<lparr>positions := (positions (store b c))
           \<lparr>vcoeff := (\<lambda>i. vcoeff (positions (store b c)) i + vcoeff deltaVelocity i * dt)\<rparr>,
         velocities := (velocities (store b c))
           \<lparr>vcoeff := (\<lambda>i. vcoeff (velocities (store b c)) i + vcoeff deltaVelocity i)\<rparr>\<rparr>"
    and b1: "b1 = b\<lparr>store := (store b)(c := st')\<rparr>"
  shows "(isValidState st' \<longleftrightarrow>
            (\<forall>i<vsize (positions st'). isfinite (vcoeff (positions st') i)) \<and>
            (\<forall>i<vsize (velocities st'). isfinite (vcoeff (velocities st') i))) \<and>
         (isValidState st' \<longrightarrow> applyCorrection resetState dt deltaVelocity b = Inr b1) \<and>
         (\<not> isValidState st' \<longrightarrow>
            applyCorrection resetState dt deltaVelocity b = deactivateAndReset resetState b1 \<and>
            applyCorrection resetState dt deltaVelocity b = afterUpdate resetState dt b1) \<and>
         (\<not> isValidState st' \<longrightarrow> resetState b1 = Inr b2 \<longrightarrow>
            applyCorrection resetState dt deltaVelocity b = Inr (b2\<lparr>m_isActive := False\<rparr>)) \<and>
         (\<not> isValidState st' \<longrightarrow>
            m_initialState b = Some init \<longrightarrow> m_previousState b = Some p \<longrightarrow> init \<noteq> c \<longrightarrow>
            (\<exists>b'. applyCorrection DeformableRepresentation_resetState dt deltaVelocity b = Inr b' \<and>
                  b' = b\<lparr>store := (store b)(c := store b init, p := store b init),
                         m_isActive := False\<rparr> \<and>
                  \<not> isActive b' \<and> store b' c = store b init \<and> store b' p = store b init \<and>
                  (\<forall>a. a \<noteq> c \<and> a \<noteq> p \<longrightarrow> store b' a = store b a)))"
proof (rule conjI)
  show "isValidState st' \<longleftrightarrow>
      (\<forall>i<vsize (positions st'). isfinite (vcoeff (positions st') i)) \<and>
      (\<forall>i<vsize (velocities st'). isfinite (vcoeff (velocities st') i))"
    by (rule isValidState_iff)
  show "(isValidState st' \<longrightarrow> applyCorrection resetState dt deltaVelocity b = Inr b1) \<and>
         (\<not> isValidState st' \<longrightarrow>
            applyCorrection resetState dt deltaVelocity b = deactivateAndReset resetState b1 \<and>
            applyCorrection resetState dt deltaVelocity b = afterUpdate resetState dt b1) \<and>
         (\<not> isValidState st' \<longrightarrow> resetState b1 = Inr b2 \<longrightarrow>
            applyCorrection resetState dt deltaVelocity b = Inr (b2\<lparr>m_isActive := False\<rparr>)) \<and>
         (\<not> isValidState st' \<longrightarrow>
            m_initialState b = Some init \<longrightarrow> m_previousState b = Some p \<longrightarrow> init \<noteq> c \<longrightarrow>
            (\<exists>b'. applyCorrection DeformableRepresentation_resetState dt deltaVelocity b = Inr b' \<and>
                  b' = b\<lparr>store := (store b)(c := store b init, p := store b init),
                         m_isActive := False\<rparr> \<and>
                  \<not> isActive b' \<and> store b' c = store b init \<and> store b' p = store b init \<and>
                  (\<forall>a. a \<noteq> c \<and> a \<noteq> p \<longrightarrow> store b' a = store b a)))"
    using assms
    by (simp add: applyCorrection_def afterUpdate_def vadd_assign_def vscale_def Let_def
          deactivateAndReset_def setIsActive_def isActive_def
          DeformableRepresentation_resetState_def)
qed

theorem applyCorrection_corrects_witness:
  "isActive twoMassBody \<and>
   (\<exists>b1. applyCorrection DeformableRepresentation_resetState (Fin (1 / 1000)) unitCorrection
            twoMassBody = Inr b1 \<and> isActive b1 \<and>
         vcoeff (positions (store b1 2)) 0 = Fin (1 / 1000) \<and>
         vcoeff (velocities (store b1 2)) 0 = Fin 2) \<and>
   (\<exists>b2. applyCorrection DeformableRepresentation_resetState (Fin (1 / 1000)) infiniteCorrection
            twoMassBody = Inr b2 \<and> \<not> isActive b2 \<and> store b2 2 = restState) \<and>
   (\<exists>b3. applyCorrection DeformableRepresentation_resetState (Fin 10) hugeCorrection
            twoMassBody = Inr b3 \<and> \<not> isActive b3 \<and> store b3 2 = restState)"
proof -
  let ?st = "\<lambda>dv dt. (store twoMassBody 2)
        \<lparr>positions := (positions (store twoMassBody 2))
           \<lparr>vcoeff := (\<lambda>i. vcoeff (positions (store twoMassBody 2)) i + vcoeff dv i * dt)\<rparr>,
         velocities := (velocities (store twoMassBody 2))
           \<lparr>vcoeff := (\<lambda>i. vcoeff (velocities (store twoMassBody 2)) i + vcoeff dv i)\<rparr>\<rparr>"
  let ?b = "\<lambda>dv dt. twoMassBody\<lparr>store := (store twoMassBody)(2 := ?st dv dt)\<rparr>"
  let ?ms = "Fin (1 / 1000)"
  have act: "isActive twoMassBody" by (simp add: isActive_def twoMassBody_def)
  have cur: "m_currentState twoMassBody = Some 2" by (simp add: twoMassBody_def)
  have ini: "m_initialState twoMassBody = Some 0" by (simp add: twoMassBody_def)
  have prev: "m_previousState twoMassBody = Some 1" by (simp add: twoMassBody_def)
  have rest: "store twoMassBody 0 = restState" by (simp add: twoMassBody_def)
  have dist: "(0::nat) \<noteq> 2" by simp
  have sx: "vsize unitCorrection = vsize (positions (store twoMassBody 2))"
    and sv: "vsize unitCorrection = vsize (velocities (store twoMassBody 2))"
    by (simp_all add: unitCorrection_def twoMassBody_defs vzero_def)
  have sx': "vsize infiniteCorrection = vsize (positions (store twoMassBody 2))"
    and sv': "vsize infiniteCorrection = vsize (velocities (store twoMassBody 2))"
    by (simp_all add: infiniteCorrection_def twoMassBody_defs vzero_def)
  have sx'': "vsize hugeCorrection = vsize (positions (store twoMassBody 2))"
    and sv'': "vsize hugeCorrection = vsize (velocities (store twoMassBody 2))"
    by (simp_all add: hugeCorrection_def twoMassBody_defs vzero_def)
  have valid: "isValidState (?st unitCorrection ?ms)"
    by (simp add: isValidState_def isValid_def unitCorrection_def twoMassBody_defs vzero_def
          numeral_eq_Suc zero_double_def)
  have invalid: "\<not> isValidState (?st infiniteCorrection ?ms)"
    by (simp add: isValidState_def isValid_def infiniteCorrection_def twoMassBody_defs
          vzero_def numeral_eq_Suc zero_double_def)
  have overflow: "\<not> isValidState (?st hugeCorrection (Fin 10))"
    by (simp add: isValidState_def isValid_def hugeCorrection_def twoMassBody_defs
          vzero_def numeral_eq_Suc zero_double_def finiteResult_def overflowThreshold_def)
  from applyCorrection_corrects [OF act cur sx sv refl refl,
      where resetState = DeformableRepresentation_resetState and dt = ?ms, THEN conjunct2] valid
  have 1: "applyCorrection DeformableRepresentation_resetState ?ms unitCorrection twoMassBody
      = Inr (?b unitCorrection ?ms)"
    by blast
  from applyCorrection_corrects [OF act cur sx' sv' refl refl,
      where dt = ?ms and init = 0 and p = 1, THEN conjunct2,
      THEN conjunct2, THEN conjunct2, THEN conjunct2, rule_format, OF invalid ini prev dist]
  obtain b2 where "applyCorrection DeformableRepresentation_resetState ?ms infiniteCorrection
        twoMassBody = Inr b2"
    and "\<not> isActive b2" and "store b2 2 = store twoMassBody 0"
    by blast
  with rest
  have 2: "\<exists>b2. applyCorrection DeformableRepresentation_resetState ?ms infiniteCorrection
            twoMassBody = Inr b2 \<and> \<not> isActive b2 \<and> store b2 2 = restState"
    by simp
  from applyCorrection_corrects [OF act cur sx'' sv'' refl refl,
      where dt = "Fin 10" and init = 0 and p = 1, THEN conjunct2,
      THEN conjunct2, THEN conjunct2, THEN conjunct2, rule_format, OF overflow ini prev dist]
  obtain b3 where "applyCorrection DeformableRepresentation_resetState (Fin 10) hugeCorrection
        twoMassBody = Inr b3"
    and "\<not> isActive b3" and "store b3 2 = store twoMassBody 0"
    by blast
  with rest
  have 3: "\<exists>b3. applyCorrection DeformableRepresentation_resetState (Fin 10) hugeCorrection
            twoMassBody = Inr b3 \<and> \<not> isActive b3 \<and> store b3 2 = restState"
    by simp
  have 4: "isActive (?b unitCorrection ?ms) \<and>
      vcoeff (positions (store (?b unitCorrection ?ms) 2)) 0 = Fin (1 / 1000) \<and>
      vcoeff (velocities (store (?b unitCorrection ?ms) 2)) 0 = Fin 2"
    by (simp add: isActive_def unitCorrection_def twoMassBody_defs vzero_def zero_double_def)
  show ?thesis
    using act 1 2 3 4 by (simp add: isActive_def)
qed

subsection \<open>The assembled system under boundary conditions\<close>

text \<open>
  C1, as amended. Let \<open>i\<close> be a boundary condition of a state that has as many degrees
  of freedom as the body. After a successful \<^verbatim>\<open>computeFMDK\<close>, \<open>i\<close> is the index of an
  entry of \<open>F\<close>, of the diagonal of \<open>M\<close>, and of a row and a column of \<open>D\<close> and of
  \<open>K\<close>; \<open>F[i]\<close> is 0, the diagonal mass entry \<open>M[i,i]\<close> is \<open>1e9\<close>, \<open>D[i,i]\<close> and
  \<open>K[i,i]\<close> are \<open>1e9\<close>, and every other entry of row \<open>i\<close> and of column \<open>i\<close> of \<open>D\<close>
  and of \<open>K\<close> is zero: these matrices have as many rows and columns as the state has
  degrees of freedom, whenever the springs leave the dimensions of the matrices they add
  into as they are. The same holds of the force after \<^verbatim>\<open>computeF\<close>, of the mass after
  \<^verbatim>\<open>computeM\<close>, of the damping after \<^verbatim>\<open>computeD\<close> and of the stiffness after
  \<^verbatim>\<open>computeK\<close>. The springs are arbitrary.
\<close>

theorem boundary_conditions_enforced:
  assumes mem: "i \<in> set (boundaryConditions st)"
    and dof: "m_numDof b = getNumDof st"
  shows "(computeFMDK b st = Inr b' \<longrightarrow>
            i < vsize (m_f b') \<and> i < vsize (m_M b') \<and>
            i < rows (m_D b') \<and> i < cols (m_D b') \<and> i < rows (m_K b') \<and> i < cols (m_K b') \<and>
            vcoeff (m_f b') i = 0 \<and> vcoeff (m_M b') i = Fin 1000000000 \<and>
            mcoeff (m_D b') i i = Fin 1000000000 \<and> mcoeff (m_K b') i i = Fin 1000000000 \<and>
            (\<forall>j<getNumDof st. j \<noteq> i \<longrightarrow>
               mcoeff (m_D b') i j = 0 \<and> mcoeff (m_D b') j i = 0 \<and>
               mcoeff (m_K b') i j = 0 \<and> mcoeff (m_K b') j i = 0) \<and>
            ((\<forall>s\<in>set (m_springs b). keepsDimensions s st) \<longrightarrow>
               rows (m_D b') = getNumDof st \<and> cols (m_D b') = getNumDof st \<and>
               rows (m_K b') = getNumDof st \<and> cols (m_K b') = getNumDof st)) \<and>
         (computeF b st = Inr bF \<longrightarrow> i < vsize (m_f bF) \<and> vcoeff (m_f bF) i = 0) \<and>
         (computeM b st = Inr bM \<longrightarrow>
            i < vsize (m_M bM) \<and> vcoeff (m_M bM) i = Fin 1000000000) \<and>
         (computeD b st = Inr bD \<longrightarrow>
            i < rows (m_D bD) \<and> i < cols (m_D bD) \<and>
            mcoeff (m_D bD) i i = Fin 1000000000 \<and>
            (\<forall>j<getNumDof st. j \<noteq> i \<longrightarrow> mcoeff (m_D bD) i j = 0 \<and> mcoeff (m_D bD) j i = 0) \<and>
            ((\<forall>s\<in>set (m_springs b). keepsDimensions s st) \<longrightarrow>
               rows (m_D bD) = getNumDof st \<and> cols (m_D bD) = getNumDof st)) \<and>
         (computeK b st = Inr bK \<longrightarrow>
            i < rows (m_K bK) \<and> i < cols (m_K bK) \<and>
            mcoeff (m_K bK) i i = Fin 1000000000 \<and>
            (\<forall>j<getNumDof st. j \<noteq> i \<longrightarrow> mcoeff (m_K bK) i j = 0 \<and> mcoeff (m_K bK) j i = 0) \<and>
            ((\<forall>s\<in>set (m_springs b). keepsDimensions s st) \<longrightarrow>
               rows (m_K bK) = getNumDof st \<and> cols (m_K bK) = getNumDof st))"
proof (intro conjI impI)
  assume run: "computeFMDK b st = Inr b'"
  note p = computeFMDK_penalised [OF run mem, unfolded dof]
  note k = computeFMDK_index [OF run mem]
  from k show "i < vsize (m_f b')" by simp
  from k show "i < vsize (m_M b')" by simp
  from k show "i < rows (m_D b')" by simp
  from k show "i < cols (m_D b')" by simp
  from k show "i < rows (m_K b')" by simp
  from k show "i < cols (m_K b')" by simp
  from p show "vcoeff (m_f b') i = 0" by simp
  from p show "vcoeff (m_M b') i = Fin 1000000000" by simp
  from p show "mcoeff (m_D b') i i = Fin 1000000000" by (simp add: penalised_def)
  from p show "mcoeff (m_K b') i i = Fin 1000000000" by (simp add: penalised_def)
  from p show "\<forall>j<getNumDof st. j \<noteq> i \<longrightarrow>
               mcoeff (m_D b') i j = 0 \<and> mcoeff (m_D b') j i = 0 \<and>
               mcoeff (m_K b') i j = 0 \<and> mcoeff (m_K b') j i = 0"
    by (simp add: penalised_def)
  assume keeps: "\<forall>s\<in>set (m_springs b). keepsDimensions s st"
  note d = computeFMDK_dimensions [OF run keeps]
  from d show "rows (m_D b') = getNumDof st" by simp
  from d show "cols (m_D b') = getNumDof st" by simp
  from d show "rows (m_K b') = getNumDof st" by simp
  from d show "cols (m_K b') = getNumDof st" by simp
next
  assume run: "computeF b st = Inr bF"
  from run mem show "i < vsize (m_f bF)" by (rule computeF_index)
  from run mem show "vcoeff (m_f bF) i = 0" by (rule computeF_zeroed)
next
  assume run: "computeM b st = Inr bM"
  from run mem show "i < vsize (m_M bM)" by (rule computeM_index)
  from run mem show "vcoeff (m_M bM) i = Fin 1000000000" by (rule computeM_penalised)
next
  assume run: "computeD b st = Inr bD"
  note p = computeD_penalised [OF run mem, unfolded dof]
  note k = computeD_index [OF run mem]
  from k show "i < rows (m_D bD)" by simp
  from k show "i < cols (m_D bD)" by simp
  from p show "mcoeff (m_D bD) i i = Fin 1000000000" by (simp add: penalised_def)
  from p show "\<forall>j<getNumDof st. j \<noteq> i \<longrightarrow> mcoeff (m_D bD) i j = 0 \<and> mcoeff (m_D bD) j i = 0"
    by (simp add: penalised_def)
  assume keeps: "\<forall>s\<in>set (m_springs b). keepsDimensions s st"
  note d = computeD_dimensions [OF run keeps]
  from d show "rows (m_D bD) = getNumDof st" by simp
  from d show "cols (m_D bD) = getNumDof st" by simp
next
  assume run: "computeK b st = Inr bK"
  note p = computeK_penalised [OF run mem, unfolded dof]
  note k = computeK_index [OF run mem]
  from k show "i < rows (m_K bK)" by simp
  from k show "i < cols (m_K bK)" by simp
  from p show "mcoeff (m_K bK) i i = Fin 1000000000" by (simp add: penalised_def)
  from p show "\<forall>j<getNumDof st. j \<noteq> i \<longrightarrow> mcoeff (m_K bK) i j = 0 \<and> mcoeff (m_K bK) j i = 0"
    by (simp add: penalised_def)
  assume keeps: "\<forall>s\<in>set (m_springs b). keepsDimensions s st"
  note d = computeK_dimensions [OF run keeps]
  from d show "rows (m_K bK) = getNumDof st" by simp
  from d show "cols (m_K bK) = getNumDof st" by simp
qed

lemma twoMassBody_computeFMDK: "\<exists>b'. computeFMDK twoMassBody movingState = Inr b'"
  by (simp add: assembly_defs twoMassBody_defs eigen_defs upt_rec numeral_eq_Suc Let_def)

lemma twoMassBody_computeF: "\<exists>b'. computeF twoMassBody movingState = Inr b'"
  by (simp add: assembly_defs twoMassBody_defs eigen_defs upt_rec numeral_eq_Suc Let_def)

lemma twoMassBody_computeM: "\<exists>b'. computeM twoMassBody movingState = Inr b'"
  by (simp add: assembly_defs twoMassBody_defs eigen_defs upt_rec numeral_eq_Suc Let_def)

lemma twoMassBody_computeD: "\<exists>b'. computeD twoMassBody movingState = Inr b'"
  by (simp add: assembly_defs twoMassBody_defs eigen_defs upt_rec numeral_eq_Suc Let_def)

lemma twoMassBody_computeK: "\<exists>b'. computeK twoMassBody movingState = Inr b'"
  by (simp add: assembly_defs twoMassBody_defs eigen_defs upt_rec numeral_eq_Suc Let_def)

theorem boundary_conditions_enforced_witness:
  "5 \<in> set (boundaryConditions movingState) \<and>
   m_numDof twoMassBody = getNumDof movingState \<and>
   m_springs twoMassBody = [elementSpring (damper (Fin 1))] \<and>
   keepsDimensions (elementSpring (damper (Fin 1))) movingState \<and>
   (\<exists>b'. computeFMDK twoMassBody movingState = Inr b' \<and>
      vcoeff (m_f b') 5 = 0 \<and> vcoeff (m_M b') 5 = Fin 1000000000 \<and>
      mcoeff (m_D b') 5 5 = Fin 1000000000 \<and> mcoeff (m_K b') 5 5 = Fin 1000000000 \<and>
      mcoeff (m_D b') 5 2 = 0 \<and> mcoeff (m_D b') 2 5 = 0 \<and>
      mcoeff (m_K b') 5 2 = 0 \<and> mcoeff (m_K b') 2 5 = 0 \<and>
      rows (m_D b') = 6 \<and> cols (m_D b') = 6 \<and> rows (m_K b') = 6 \<and> cols (m_K b') = 6) \<and>
   (\<exists>bF. computeF twoMassBody movingState = Inr bF \<and> vcoeff (m_f bF) 5 = 0) \<and>
   (\<exists>bM. computeM twoMassBody movingState = Inr bM \<and> vcoeff (m_M bM) 5 = Fin 1000000000) \<and>
   (\<exists>bD. computeD twoMassBody movingState = Inr bD \<and>
      mcoeff (m_D bD) 5 5 = Fin 1000000000 \<and> mcoeff (m_D bD) 5 2 = 0 \<and> mcoeff (m_D bD) 2 5 = 0 \<and>
      rows (m_D bD) = 6 \<and> cols (m_D bD) = 6) \<and>
   (\<exists>bK. computeK twoMassBody movingState = Inr bK \<and>
      mcoeff (m_K bK) 5 5 = Fin 1000000000 \<and> mcoeff (m_K bK) 5 2 = 0 \<and> mcoeff (m_K bK) 2 5 = 0 \<and>
      rows (m_K bK) = 6 \<and> cols (m_K bK) = 6)"
proof -
  have mem: "5 \<in> set (boundaryConditions movingState)"
    by (simp add: movingState_def restState_def)
  have n: "getNumDof movingState = 6" by (simp add: getNumDof_def movingState_def restState_def)
  have dof: "m_numDof twoMassBody = getNumDof movingState" by (simp add: n twoMassBody_def)
  have keeps: "\<forall>s\<in>set (m_springs twoMassBody). keepsDimensions s movingState"
    by (simp add: twoMassBody_def elementSpring_keepsDimensions)
  obtain b' where b': "computeFMDK twoMassBody movingState = Inr b'"
    using twoMassBody_computeFMDK by blast
  obtain bF where bF: "computeF twoMassBody movingState = Inr bF"
    using twoMassBody_computeF by blast
  obtain bM where bM: "computeM twoMassBody movingState = Inr bM"
    using twoMassBody_computeM by blast
  obtain bD where bD: "computeD twoMassBody movingState = Inr bD"
    using twoMassBody_computeD by blast
  obtain bK where bK: "computeK twoMassBody movingState = Inr bK"
    using twoMassBody_computeK by blast
  note inst = boundary_conditions_enforced [OF mem dof, where b' = b'
      and bF = bF and bM = bM and bD = bD and bK = bK]
  have two: "(2::nat) < 6 \<and> (2::nat) \<noteq> 5" by simp
  from inst b' n two keeps have 1: "vcoeff (m_f b') 5 = 0 \<and> vcoeff (m_M b') 5 = Fin 1000000000 \<and>
      mcoeff (m_D b') 5 5 = Fin 1000000000 \<and> mcoeff (m_K b') 5 5 = Fin 1000000000 \<and>
      mcoeff (m_D b') 5 2 = 0 \<and> mcoeff (m_D b') 2 5 = 0 \<and>
      mcoeff (m_K b') 5 2 = 0 \<and> mcoeff (m_K b') 2 5 = 0 \<and>
      rows (m_D b') = 6 \<and> cols (m_D b') = 6 \<and> rows (m_K b') = 6 \<and> cols (m_K b') = 6"
    by simp
  from inst bF have 2: "vcoeff (m_f bF) 5 = 0" by simp
  from inst bM have 3: "vcoeff (m_M bM) 5 = Fin 1000000000" by simp
  from inst bD n two keeps have 4: "mcoeff (m_D bD) 5 5 = Fin 1000000000 \<and>
      mcoeff (m_D bD) 5 2 = 0 \<and> mcoeff (m_D bD) 2 5 = 0 \<and>
      rows (m_D bD) = 6 \<and> cols (m_D bD) = 6"
    by simp
  from inst bK n two keeps have 5: "mcoeff (m_K bK) 5 5 = Fin 1000000000 \<and>
      mcoeff (m_K bK) 5 2 = 0 \<and> mcoeff (m_K bK) 2 5 = 0 \<and>
      rows (m_K bK) = 6 \<and> cols (m_K bK) = 6"
    by simp
  have springs: "m_springs twoMassBody = [elementSpring (damper (Fin 1))]"
    by (simp add: twoMassBody_def)
  note spring = elementSpring_keepsDimensions [of "damper (Fin 1)" movingState]
  from mem dof springs spring b' 1 bF 2 bM 3 bD 4 bK 5 show ?thesis by blast
qed

text \<open>
  The claim C1 as stated, for every state, fails on a state that has more degrees of
  freedom than the body: the matrices are resized to the nine degrees of freedom of the
  state, while a boundary condition zeroes its row and its column over the six degrees of
  freedom of the body only. With a spring between the nodes 1 and 2, the entries \<open>(5, 8)\<close>
  and \<open>(8, 5)\<close> of the damping matrix keep the damping of the spring, in row 5 and in
  column 5 of the boundary condition 5.
\<close>

theorem boundary_conditions_counterexample:
  "5 \<in> set (boundaryConditions threeNodeState) \<and>
   m_numDof spanningBody = 6 \<and> getNumDof threeNodeState = 9 \<and>
   (\<exists>b'. computeFMDK spanningBody threeNodeState = Inr b' \<and>
      rows (m_D b') = 9 \<and> cols (m_D b') = 9 \<and>
      mcoeff (m_D b') 5 8 = Fin (- 1) \<and> mcoeff (m_D b') 8 5 = Fin (- 1) \<and>
      mcoeff (m_D b') 5 8 \<noteq> 0) \<and>
   (\<exists>bD. computeD spanningBody threeNodeState = Inr bD \<and>
      rows (m_D bD) = 9 \<and> cols (m_D bD) = 9 \<and>
      mcoeff (m_D bD) 5 8 = Fin (- 1) \<and> mcoeff (m_D bD) 8 5 = Fin (- 1) \<and>
      mcoeff (m_D bD) 5 8 \<noteq> 0)"
  by (simp add: assembly_defs twoMassBody_defs eigen_defs upt_rec numeral_eq_Suc Let_def)

subsection \<open>The two paths of the Rayleigh damping force\<close>

text \<open>
  C2. The claim is that the Rayleigh damping force added through the assembled damping
  matrix (in \<^verbatim>\<open>computeFMDK\<close>) equals the one added by the loop over masses and springs
  (in \<^verbatim>\<open>computeF\<close>), both being \<open>-(rayleighMass * M + rayleighStiffness * K) * v\<close>.
  On the two-mass body, with node 0 moving along \<open>x\<close> at 1 m/s, the two functions
  disagree on the force at the free degree of freedom 0. \<^verbatim>\<open>computeF\<close> gives \<open>-2\<close>:
  \<open>-1\<close> from the damping of the spring and \<open>-1\<close> from the Rayleigh term.
  \<^verbatim>\<open>computeFMDK\<close> gives \<open>-3\<close>: its Rayleigh term subtracts \<open>m_D * v\<close>, and \<open>m_D\<close> then
  holds the damping matrix of the spring besides the Rayleigh matrix, so the damping of
  the spring is counted twice.
\<close>

theorem rayleigh_force_paths_differ:
  "\<exists>bF bA. computeF twoMassBody movingState = Inr bF \<and>
           computeFMDK twoMassBody movingState = Inr bA \<and>
           vcoeff (m_f bF) 0 = Fin (- 2) \<and> vcoeff (m_f bA) 0 = Fin (- 3)"
  by (simp add: assembly_defs twoMassBody_defs eigen_defs upt_rec numeral_eq_Suc Let_def)

text \<open>
  The two contributions in isolation, on the body as \<^verbatim>\<open>computeFMDK\<close> has assembled it
  and from a zero force: through the assembled damping matrix the Rayleigh term is \<open>-2\<close>
  at degree of freedom 0, by the loop over masses and springs it is \<open>-1\<close>, which is
  \<open>-(rayleighMass * M + rayleighStiffness * K) * v\<close> there.
\<close>

lemma rayleigh_contributions:
  "\<exists>b2 f g. computeFMDK_assemble twoMassBody movingState = Inr b2 \<and>
     addRayleighDampingForce b2 (vzero 6) movingState True False False 1 = Inr f \<and>
     addRayleighDampingForce b2 (vzero 6) movingState False False False 1 = Inr g \<and>
     vcoeff f 0 = Fin (- 2) \<and> vcoeff g 0 = Fin (- 1)"
  by (simp add: assembly_defs twoMassBody_defs eigen_defs upt_rec numeral_eq_Suc Let_def)

subsection \<open>The local mass matrix of the tetrahedron\<close>

lemma times_double_commute: "(x::double) * y = y * x"
  by (cases x; cases y) (simp_all add: mult.commute)

lemma fold_establishes:
  assumes start: "P s \<or> i \<in> set xs"
    and step: "\<And>x s. P s \<or> x = i \<Longrightarrow> P (f x s)"
  shows "P (fold f xs s)"
  using start
proof (induction xs arbitrary: s)
  case Nil
  then show ?case by simp
next
  case (Cons x xs)
  show ?case
  proof (cases "P s \<or> x = i")
    case True
    then have "P (f x s)" by (rule step)
    then show ?thesis using Cons.IH by simp
  next
    case False
    with Cons.prems have "i \<in> set xs" by auto
    then show ?thesis using Cons.IH by simp
  qed
qed

lemma fold_preserves:
  assumes start: "P s" and step: "\<And>x s. x \<in> set xs \<Longrightarrow> P s \<Longrightarrow> P (f x s)"
  shows "P (fold f xs s)"
  using start step by (induction xs arbitrary: s) auto

lemma setSubMatrix_same:
  "massBlock s r c (setSubMatrix (mscale Identity33 s) r c 3 3 M)"
  by (simp add: massBlock_def setSubMatrix_def mscale_def)

lemma setSubMatrix_other:
  assumes blk: "massBlock s r c M" and other: "r' \<noteq> r \<or> c' \<noteq> c"
  shows "massBlock s r c (setSubMatrix sub r' c' 3 3 M)"
  unfolding massBlock_def
proof (intro allI impI)
  fix a b :: nat
  assume a: "a < 3" and b: "b < 3"
  from other a b have out: "\<not> (3 * r' \<le> 3 * r + a \<and> 3 * r + a < 3 * r' + 3 \<and>
           3 * c' \<le> 3 * c + b \<and> 3 * c + b < 3 * c' + 3)"
    by presburger
  from blk a b have "mcoeff M (3 * r + a) (3 * c + b) = mcoeff Identity33 a b * s"
    by (simp add: massBlock_def)
  with out show "mcoeff (setSubMatrix sub r' c' 3 3 M) (3 * r + a) (3 * c + b)
      = mcoeff Identity33 a b * s"
    by (auto simp: setSubMatrix_def)
qed

lemma computeMass_block_establishes:
  "massBlock (if r = c then Fin 2 * coef else coef) r c (computeMass_block coef r c M)"
  by (simp add: computeMass_block_def setSubMatrix_same)

lemma computeMass_block_preserves:
  "massBlock s r c M \<Longrightarrow> r' \<noteq> r \<or> c' \<noteq> c \<Longrightarrow> massBlock s r c (computeMass_block coef r' c' M)"
  by (auto simp: computeMass_block_def intro!: setSubMatrix_other)

lemma massRow_establishes:
  assumes c: "c < 4"
  shows "massBlock (if r = c then Fin 2 * coef else coef) r c
           (fold (computeMass_block coef r) [0..<4] M)"
proof (rule fold_establishes [where i = c])
  show "massBlock (if r = c then Fin 2 * coef else coef) r c M \<or> c \<in> set [0..<4]"
    using c by simp
next
  fix x s
  assume "massBlock (if r = c then Fin 2 * coef else coef) r c s \<or> x = c"
  then show "massBlock (if r = c then Fin 2 * coef else coef) r c (computeMass_block coef r x s)"
    using computeMass_block_establishes [of r c coef s] computeMass_block_preserves [of _ r c s r x coef]
    by (cases "x = c") auto
qed

lemma massRow_preserves:
  assumes "massBlock s r c M" and "r' \<noteq> r"
  shows "massBlock s r c (fold (computeMass_block coef r') [0..<4] M)"
proof (rule fold_preserves [where P = "massBlock s r c"])
  show "massBlock s r c M" by (rule assms(1))
next
  fix x s'
  assume "massBlock s r c s'"
  then show "massBlock s r c (computeMass_block coef r' x s')"
    using assms(2) by (simp add: computeMass_block_preserves)
qed

lemma massLoops:
  assumes r: "r < 4" and c: "c < 4"
  shows "massBlock (if r = c then Fin 2 * coef else coef) r c
           (fold (\<lambda>rowNodeId. fold (computeMass_block coef rowNodeId) [0..<4]) [0..<4] M)"
proof (rule fold_establishes [where i = r])
  show "massBlock (if r = c then Fin 2 * coef else coef) r c M \<or> r \<in> set [0..<4]"
    using r by simp
next
  fix x s
  assume "massBlock (if r = c then Fin 2 * coef else coef) r c s \<or> x = r"
  then show "massBlock (if r = c then Fin 2 * coef else coef) r c
               (fold (computeMass_block coef x) [0..<4] s)"
    using massRow_establishes [OF c, of r coef s]
      massRow_preserves [of "if r = c then Fin 2 * coef else coef" r c s x coef]
    by (cases "x = r") auto
qed

lemma computeMass_blocks:
  assumes run: "computeMass e st M = Inr M'" and vol: "getVolume e st = Inr V"
    and r: "r < 4" and c: "c < 4"
  shows "massBlock (if r = c then Fin 2 * (V * m_rho e / Fin 20) else V * m_rho e / Fin 20) r c M'"
proof -
  from run vol have "M' = fold (\<lambda>rowNodeId. fold (computeMass_block (V * m_rho e / Fin 20) rowNodeId) [0..<4])
      [0..<4] (M\<lparr>rows := 12, cols := 12\<rparr>)"
    by (simp add: computeMass_def Let_def)
  then show ?thesis using massLoops [OF r c] by simp
qed

lemma getVolume_nodeIds: "m_nodeIds e2 = m_nodeIds e \<Longrightarrow> getVolume e2 st = getVolume e st"
  by (simp add: getVolume_def)

lemma computeShapeFunctions_parameters_fields:
  "m_restVolume (computeShapeFunctions_parameters e a b c d) = m_restVolume e \<and>
   m_rho (computeShapeFunctions_parameters e a b c d) = m_rho e \<and>
   m_nodeIds (computeShapeFunctions_parameters e a b c d) = m_nodeIds e \<and>
   m_E (computeShapeFunctions_parameters e a b c d) = m_E e \<and>
   m_nu (computeShapeFunctions_parameters e a b c d) = m_nu e"
  by (simp add: computeShapeFunctions_parameters_def Let_def)

lemma computeShapeFunctions_fields:
  assumes "computeShapeFunctions e st = Inr e1"
  shows "\<exists>V. getVolume e st = Inr V \<and> m_restVolume e1 = V \<and> m_rho e1 = m_rho e \<and>
             m_nodeIds e1 = m_nodeIds e \<and> m_E e1 = m_E e \<and> m_nu e1 = m_nu e"
proof -
  from assms obtain a b c d V where V: "getVolume e st = Inr V"
    and e1: "e1 = computeShapeFunctions_parameters (e\<lparr>m_restVolume := V\<rparr>) a b c d"
    unfolding computeShapeFunctions_def bindE_eq_Inr by auto
  show ?thesis
    using V by (simp add: e1 computeShapeFunctions_parameters_fields)
qed

lemma computeStiffness_fields:
  "m_M_el (computeStiffness e st) = m_M_el e \<and> m_rho (computeStiffness e st) = m_rho e \<and>
   m_restVolume (computeStiffness e st) = m_restVolume e \<and>
   m_nodeIds (computeStiffness e st) = m_nodeIds e"
  by (simp add: computeStiffness_def)

lemma initialize_mass:
  assumes run: "initialize e st = Inr e'"
  shows "\<exists>V e2 M0. getVolume e st = Inr V \<and> m_restVolume e' = V \<and> m_rho e' = m_rho e \<and>
           m_rho e2 = m_rho e \<and> m_nodeIds e2 = m_nodeIds e \<and>
           computeMass e2 st M0 = Inr (m_M_el e')"
proof -
  from run obtain e1 where e1: "computeShapeFunctions e st = Inr e1"
    and rest1: "bindE (getSubVectorBlocks (positions st) (m_nodeIds e1) 3 ((m_x0 e1)\<lparr>vsize := 12\<rparr>))
      (\<lambda>x0. bindE (computeMass (e1\<lparr>m_x0 := x0\<rparr>) st (m_M_el (e1\<lparr>m_x0 := x0\<rparr>)))
         (\<lambda>M. Inr (computeStiffness (e1\<lparr>m_x0 := x0, m_M_el := M\<rparr>) st))) = Inr e'"
    unfolding initialize_def Let_def bindE_eq_Inr by blast
  from rest1 obtain x0 M where
    M: "computeMass (e1\<lparr>m_x0 := x0\<rparr>) st (m_M_el (e1\<lparr>m_x0 := x0\<rparr>)) = Inr M"
    and e': "e' = computeStiffness (e1\<lparr>m_x0 := x0, m_M_el := M\<rparr>) st"
    unfolding bindE_eq_Inr by auto
  from computeShapeFunctions_fields [OF e1] obtain V where V: "getVolume e st = Inr V"
    and f: "m_restVolume e1 = V" "m_rho e1 = m_rho e" "m_nodeIds e1 = m_nodeIds e"
    by blast
  have 1: "m_restVolume e' = V" "m_rho e' = m_rho e" "m_M_el e' = M"
    using f by (simp_all add: e' computeStiffness_fields)
  have 2: "m_rho (e1\<lparr>m_x0 := x0\<rparr>) = m_rho e" "m_nodeIds (e1\<lparr>m_x0 := x0\<rparr>) = m_nodeIds e"
    using f by simp_all
  from V 1 2 M show ?thesis by blast
qed

lemma computeMass_dims:
  assumes "computeMass e st M = Inr M'"
  shows "rows M' = 12 \<and> cols M' = 12"
proof -
  from assms obtain V where M': "M' = fold (\<lambda>rowNodeId.
      fold (computeMass_block (V * m_rho e / Fin 20) rowNodeId) [0..<4]) [0..<4] (M\<lparr>rows := 12, cols := 12\<rparr>)"
    by (auto simp: computeMass_def Let_def bindE_eq_Inr)
  have step: "rows (computeMass_block coef r c s) = rows s \<and> cols (computeMass_block coef r c s) = cols s"
    for coef r c s
    by (simp add: computeMass_block_def setSubMatrix_def)
  have row: "rows (fold (computeMass_block coef r) xs s) = 12 \<and> cols (fold (computeMass_block coef r) xs s) = 12"
    if "rows s = 12 \<and> cols s = 12" for coef r xs s
    using that by (induction xs arbitrary: s) (simp_all add: step)
  have "rows (fold (\<lambda>r. fold (computeMass_block coef r) [0..<4]) xs s) = 12 \<and>
        cols (fold (\<lambda>r. fold (computeMass_block coef r) [0..<4]) xs s) = 12"
    if "rows s = 12 \<and> cols s = 12" for coef xs s
    using that
  proof (induction xs arbitrary: s)
    case Nil
    then show ?case by simp
  next
    case (Cons x xs)
    from row [OF Cons.prems] show ?case by (simp add: Cons.IH del: upt_rec_numeral)
  qed
  then show ?thesis unfolding M' by simp
qed

subsection \<open>Initialisation of the tetrahedron\<close>

lemma nodeId_check:
  "foldE (\<lambda>nodeId u. if nodeId < N then Inr u else Inl AssertionFailure) ids () =
     (if list_all (\<lambda>n. n < N) ids then Inr () else Inl AssertionFailure)"
  by (induction ids) simp_all

lemma getSubVector_in_range:
  assumes "n < getNumNodes st" and "3 * getNumNodes st \<le> vsize (positions st)"
  shows "getSubVector (positions st) n 3
           = Inr \<lparr>vsize = 3, vcoeff = (\<lambda>i. vcoeff (positions st) (3 * n + i))\<rparr>"
  using assms by (simp add: getSubVector_def)

lemma getSubVectorBlocks_four:
  assumes "3 * n0 + 3 \<le> vsize v" "3 * n1 + 3 \<le> vsize v" "3 * n2 + 3 \<le> vsize v"
    "3 * n3 + 3 \<le> vsize v" "vsize sub = 12"
  shows "\<exists>x0. getSubVectorBlocks v [n0, n1, n2, n3] 3 sub = Inr x0"
  using assms
  by (simp add: getSubVectorBlocks_def getSubVector_def setSubVector_def numeral_eq_Suc)

lemma getVolume_in_range:
  assumes "m_nodeIds e = [n0, n1, n2, n3]"
    and "3 * n0 + 3 \<le> vsize (positions st)" "3 * n1 + 3 \<le> vsize (positions st)"
    "3 * n2 + 3 \<le> vsize (positions st)" "3 * n3 + 3 \<le> vsize (positions st)"
  shows "\<exists>V. getVolume e st = Inr V"
  using assms by (simp add: getVolume_def getSubVector_def Let_def)

lemma computeShapeFunctions_in_range:
  assumes "m_nodeIds e = [n0, n1, n2, n3]"
    and "3 * n0 + 3 \<le> vsize (positions st)" "3 * n1 + 3 \<le> vsize (positions st)"
    "3 * n2 + 3 \<le> vsize (positions st)" "3 * n3 + 3 \<le> vsize (positions st)"
  shows "\<exists>e1. computeShapeFunctions e st = Inr e1"
proof -
  from getVolume_in_range [OF assms] obtain V where "getVolume e st = Inr V" by blast
  with assms show ?thesis
    by (simp add: computeShapeFunctions_def getSubVector_def)
qed

lemma computeMass_in_range:
  assumes "getVolume e st = Inr V"
  shows "\<exists>M'. computeMass e st M = Inr M'"
  using assms by (simp add: computeMass_def Let_def)

lemma initialize_fails:
  assumes "\<not> (Fin 0 < m_rho e \<and> Fin 0 < m_E e \<and> Fin 0 \<le> m_nu e \<and> m_nu e < Fin (1 / 2) \<and>
              list_all (\<lambda>n. n < getNumNodes st) (m_nodeIds e))"
  shows "initialize e st = Inl AssertionFailure"
proof (cases "Fin 0 < m_rho e \<and> Fin 0 < m_E e \<and> Fin 0 \<le> m_nu e \<and> m_nu e < Fin (1 / 2)")
  case True
  with assms have "\<not> list_all (\<lambda>n. n < getNumNodes st) (m_nodeIds e)" by blast
  with True show ?thesis
    by (simp add: initialize_def FemElement_initialize_def nodeId_check)
next
  case False
  then have "FemElement_initialize e st = Inl AssertionFailure"
    unfolding FemElement_initialize_def by (simp only: if_False)
  then show ?thesis by (simp add: initialize_def)
qed

lemma initialize_succeeds:
  assumes len: "length (m_nodeIds e) = 4"
    and wf: "3 * getNumNodes st \<le> vsize (positions st)"
    and par: "Fin 0 < m_rho e \<and> Fin 0 < m_E e \<and> Fin 0 \<le> m_nu e \<and> m_nu e < Fin (1 / 2)"
    and ids: "list_all (\<lambda>n. n < getNumNodes st) (m_nodeIds e)"
  shows "\<exists>e'. initialize e st = Inr e'"
proof -
  from len obtain n0 n1 n2 n3 where e: "m_nodeIds e = [n0, n1, n2, n3]"
    by (auto simp: length_Suc_conv numeral_eq_Suc)
  from ids wf have r: "3 * n0 + 3 \<le> vsize (positions st)" "3 * n1 + 3 \<le> vsize (positions st)"
    "3 * n2 + 3 \<le> vsize (positions st)" "3 * n3 + 3 \<le> vsize (positions st)"
    by (simp_all add: e)
  from par have 1: "FemElement_initialize e st = Inr ()"
    by (simp add: FemElement_initialize_def)
  from ids have 2: "foldE (\<lambda>nodeId u. if nodeId < getNumNodes st then Inr u
      else Inl AssertionFailure) (m_nodeIds e) () = Inr ()"
    by (simp add: nodeId_check)
  from computeShapeFunctions_in_range [OF e r] obtain e1 where
    3: "computeShapeFunctions e st = Inr e1" by blast
  from computeShapeFunctions_fields [OF 3] obtain V where V: "getVolume e st = Inr V"
    and e1: "m_nodeIds e1 = m_nodeIds e" by blast
  from getSubVectorBlocks_four [OF r, of "(m_x0 e1)\<lparr>vsize := 12\<rparr>"] obtain x0 where
    4: "getSubVectorBlocks (positions st) (m_nodeIds e1) 3 ((m_x0 e1)\<lparr>vsize := 12\<rparr>) = Inr x0"
    by (auto simp: e1 e)
  have "getVolume (e1\<lparr>m_x0 := x0\<rparr>) st = Inr V"
    using getVolume_nodeIds [of "e1\<lparr>m_x0 := x0\<rparr>" e st] e1 V by simp
  from computeMass_in_range [OF this] obtain M where
    5: "computeMass (e1\<lparr>m_x0 := x0\<rparr>) st (m_M_el e1) = Inr M" by blast
  show ?thesis
    unfolding initialize_def Let_def by (simp add: 1 2 3 4 5)
qed

lemma fourNodeState_wf: "3 * getNumNodes fourNodeState \<le> vsize (positions fourNodeState)"
  by (simp add: fourNodeState_def getNumNodes_def)

lemma unitTetrahedron_volume: "getVolume unitTetrahedron fourNodeState = Inr (Fin (1 / 6))"
  by (simp add: getVolume_def unitTetrahedron_def fourNodeState_def getSubVector_def det_def
        Let_def minus_double_def finiteResult_small)

text \<open>
  C9. For a tetrahedron (four node ids) and a state that holds three coordinates for each
  of its nodes, \<^verbatim>\<open>initialize\<close> fails with an assertion, returning no element, whenever
  the mass density is not above 0, the Young modulus is not above 0, the Poisson ratio is
  not in \<open>[0, 0.5)\<close>, or a node id is not below the number of nodes of the state; and it
  succeeds when the parameters are valid and all node ids are in range.
\<close>

theorem initialize_validates:
  assumes len: "length (m_nodeIds e) = 4"
    and wf: "3 * getNumNodes st \<le> vsize (positions st)"
  shows "(Fin 0 < m_rho e \<and> Fin 0 < m_E e \<and> Fin 0 \<le> m_nu e \<and> m_nu e < Fin (1 / 2) \<and>
          list_all (\<lambda>n. n < getNumNodes st) (m_nodeIds e)
            \<longrightarrow> (\<exists>e'. initialize e st = Inr e')) \<and>
         (\<not> (Fin 0 < m_rho e \<and> Fin 0 < m_E e \<and> Fin 0 \<le> m_nu e \<and> m_nu e < Fin (1 / 2) \<and>
             list_all (\<lambda>n. n < getNumNodes st) (m_nodeIds e))
            \<longrightarrow> initialize e st = Inl AssertionFailure)"
  using initialize_succeeds [OF len wf] initialize_fails [of e st] by blast

theorem initialize_validates_witness:
  "length (m_nodeIds unitTetrahedron) = 4 \<and>
   3 * getNumNodes fourNodeState \<le> vsize (positions fourNodeState) \<and>
   (\<exists>e'. initialize unitTetrahedron fourNodeState = Inr e') \<and>
   initialize (unitTetrahedron\<lparr>m_rho := Fin 0\<rparr>) fourNodeState = Inl AssertionFailure \<and>
   initialize (unitTetrahedron\<lparr>m_nu := Fin (1 / 2)\<rparr>) fourNodeState = Inl AssertionFailure \<and>
   initialize (unitTetrahedron\<lparr>m_E := NaN\<rparr>) fourNodeState = Inl AssertionFailure \<and>
   initialize (unitTetrahedron\<lparr>m_nodeIds := [0, 1, 2, 4]\<rparr>) fourNodeState = Inl AssertionFailure"
proof -
  have len: "length (m_nodeIds e) = 4"
    if "e \<in> {unitTetrahedron, unitTetrahedron\<lparr>m_rho := Fin 0\<rparr>,
       unitTetrahedron\<lparr>m_nu := Fin (1 / 2)\<rparr>, unitTetrahedron\<lparr>m_E := NaN\<rparr>,
       unitTetrahedron\<lparr>m_nodeIds := [0, 1, 2, 4]\<rparr>}" for e
    using that by (auto simp: unitTetrahedron_def)
  note wf = fourNodeState_wf
  have ok: "Fin 0 < m_rho unitTetrahedron \<and> Fin 0 < m_E unitTetrahedron \<and>
      Fin 0 \<le> m_nu unitTetrahedron \<and> m_nu unitTetrahedron < Fin (1 / 2) \<and>
      list_all (\<lambda>n. n < getNumNodes fourNodeState) (m_nodeIds unitTetrahedron)"
    by (simp add: unitTetrahedron_def fourNodeState_def getNumNodes_def)
  have 1: "\<exists>e'. initialize unitTetrahedron fourNodeState = Inr e'"
    using initialize_validates [OF len wf, of unitTetrahedron] ok by blast
  have 2: "initialize (unitTetrahedron\<lparr>m_rho := Fin 0\<rparr>) fourNodeState = Inl AssertionFailure"
    using initialize_validates [OF len wf, of "unitTetrahedron\<lparr>m_rho := Fin 0\<rparr>"]
    by (simp add: unitTetrahedron_def)
  have 3: "initialize (unitTetrahedron\<lparr>m_nu := Fin (1 / 2)\<rparr>) fourNodeState = Inl AssertionFailure"
    using initialize_validates [OF len wf, of "unitTetrahedron\<lparr>m_nu := Fin (1 / 2)\<rparr>"]
    by (simp add: unitTetrahedron_def)
  have 4: "initialize (unitTetrahedron\<lparr>m_E := NaN\<rparr>) fourNodeState = Inl AssertionFailure"
    using initialize_validates [OF len wf, of "unitTetrahedron\<lparr>m_E := NaN\<rparr>"]
    by (simp add: unitTetrahedron_def)
  have 5: "initialize (unitTetrahedron\<lparr>m_nodeIds := [0, 1, 2, 4]\<rparr>) fourNodeState
      = Inl AssertionFailure"
    using initialize_validates [OF len wf, of "unitTetrahedron\<lparr>m_nodeIds := [0, 1, 2, 4]\<rparr>"]
    by (simp add: unitTetrahedron_def fourNodeState_def getNumNodes_def)
  from len [of unitTetrahedron] wf 1 2 3 4 5 show ?thesis by simp
qed

text \<open>
  C7. After a successful \<^verbatim>\<open>initialize\<close>, the cached local mass matrix is 12 by 12 and,
  with \<open>coef = rho * V / 20\<close> for the mass density \<open>rho\<close> and the rest volume \<open>V\<close> of the
  element, its 3 by 3 block \<open>(r, c)\<close> is \<open>2 * coef\<close> times the identity when \<open>r = c\<close> and
  \<open>coef\<close> times the identity otherwise.
\<close>

theorem tetrahedron_mass_matrix:
  assumes run: "initialize e st = Inr e'"
    and coef: "coef = m_rho e' * m_restVolume e' / Fin 20"
    and r: "r < 4" and c: "c < 4" and a: "a < 3" and b: "b < 3"
  shows "rows (m_M_el e') = 12 \<and> cols (m_M_el e') = 12 \<and>
         mcoeff (m_M_el e') (3 * r + a) (3 * c + b) =
           (if r = c then Fin 2 * coef else coef) * mcoeff Identity33 a b"
proof -
  from initialize_mass [OF run] obtain V e2 M0 where V: "getVolume e st = Inr V"
    and rest: "m_restVolume e' = V" and rho: "m_rho e' = m_rho e"
    and rho2: "m_rho e2 = m_rho e" and ids: "m_nodeIds e2 = m_nodeIds e"
    and M: "computeMass e2 st M0 = Inr (m_M_el e')"
    by blast
  have V2: "getVolume e2 st = Inr V" using getVolume_nodeIds [OF ids] V by simp
  have "V * m_rho e2 = m_rho e' * m_restVolume e'"
    unfolding rest rho rho2 by (rule times_double_commute)
  then have c2: "V * m_rho e2 / Fin 20 = coef" unfolding coef by simp
  have "massBlock (if r = c then Fin 2 * coef else coef) r c (m_M_el e')"
    using computeMass_blocks [OF M V2 r c] unfolding c2 .
  then have "\<forall>a<3. \<forall>b<3. mcoeff (m_M_el e') (3 * r + a) (3 * c + b) =
          mcoeff Identity33 a b * (if r = c then Fin 2 * coef else coef)"
    unfolding massBlock_def .
  with a b have "mcoeff (m_M_el e') (3 * r + a) (3 * c + b) =
          mcoeff Identity33 a b * (if r = c then Fin 2 * coef else coef)"
    by simp
  also have "\<dots> = (if r = c then Fin 2 * coef else coef) * mcoeff Identity33 a b"
    by (rule times_double_commute)
  finally show ?thesis using computeMass_dims [OF M] by simp
qed

theorem tetrahedron_mass_matrix_witness:
  "\<exists>e'. initialize unitTetrahedron fourNodeState = Inr e' \<and>
     mcoeff (m_M_el e') 0 0 = Fin (50 / 3) \<and> mcoeff (m_M_el e') 4 1 = Fin (25 / 3) \<and>
     mcoeff (m_M_el e') 4 2 = Fin 0 \<and> mcoeff (m_M_el e') 11 11 = Fin (50 / 3)"
proof -
  obtain e' where run: "initialize unitTetrahedron fourNodeState = Inr e'"
    using initialize_succeeds [of unitTetrahedron fourNodeState]
    by (auto simp: unitTetrahedron_def fourNodeState_def getNumNodes_def)
  from initialize_mass [OF run] unitTetrahedron_volume
  have rest: "m_restVolume e' = Fin (1 / 6)" and rho: "m_rho e' = Fin 1000"
    by (auto simp: unitTetrahedron_def)
  have coef: "Fin (25 / 3) = m_rho e' * m_restVolume e' / Fin 20"
    by (simp add: rest rho)
  have "mcoeff (m_M_el e') (3 * 0 + 0) (3 * 0 + 0) = Fin (50 / 3)"
    using tetrahedron_mass_matrix [OF run coef, of 0 0 0 0]
    by (simp add: Identity33_def one_double_def)
  moreover have "mcoeff (m_M_el e') (3 * 1 + 1) (3 * 0 + 1) = Fin (25 / 3)"
    using tetrahedron_mass_matrix [OF run coef, of 1 0 1 1]
    by (simp add: Identity33_def one_double_def)
  moreover have "mcoeff (m_M_el e') (3 * 1 + 1) (3 * 0 + 2) = Fin 0"
    using tetrahedron_mass_matrix [OF run coef, of 1 0 1 2]
    by (simp add: Identity33_def zero_double_def)
  moreover have "mcoeff (m_M_el e') (3 * 3 + 2) (3 * 3 + 2) = Fin (50 / 3)"
    using tetrahedron_mass_matrix [OF run coef, of 3 3 2 2]
    by (simp add: Identity33_def one_double_def)
  ultimately show ?thesis using run by (simp add: numeral_2_eq_2)
qed

subsection \<open>Natural coordinates\<close>

lemma centroid_valid: "isValidCoordinate unitTetrahedron centroid"
  by (simp add: isValidCoordinate_def centroid_def vsum_def numeral_eq_Suc ScalarEpsilon_def
        zero_double_def minus_double_def)

lemma notNormalised_invalid: "\<not> isValidCoordinate unitTetrahedron notNormalised"
  by (simp add: isValidCoordinate_def notNormalised_def vsum_def numeral_eq_Suc ScalarEpsilon_def
        zero_double_def minus_double_def)

text \<open>
  C8. \<^verbatim>\<open>isValidCoordinate\<close> holds exactly of the vectors of 4 components whose sum is
  within \<open>ScalarEpsilon = 1e-10\<close> of 1. \<^verbatim>\<open>computeCartesianCoordinate\<close> fails with an
  assertion whenever it does not hold; when it holds, and the four nodes of the element
  are nodes of the state, it returns the sum of the positions of the four nodes weighted
  by the natural coordinates.
\<close>

theorem natural_coordinate_contract:
  "(isValidCoordinate e c \<longleftrightarrow> vsize c = 4 \<and> \<bar>vsum c - Fin 1\<bar> < ScalarEpsilon) \<and>
   (\<not> isValidCoordinate e c \<longrightarrow> computeCartesianCoordinate e st c = Inl AssertionFailure) \<and>
   (isValidCoordinate e c \<longrightarrow>
      list_all (\<lambda>k. 3 * (m_nodeIds e ! k) + 3 \<le> vsize (positions st)) [0, 1, 2, 3] \<longrightarrow>
      (\<exists>p. computeCartesianCoordinate e st c = Inr p \<and> vsize p = 3 \<and>
         (\<forall>j. vcoeff p j =
            vcoeff c 0 * vcoeff (positions st) (3 * (m_nodeIds e ! 0) + j) +
            vcoeff c 1 * vcoeff (positions st) (3 * (m_nodeIds e ! 1) + j) +
            vcoeff c 2 * vcoeff (positions st) (3 * (m_nodeIds e ! 2) + j) +
            vcoeff c 3 * vcoeff (positions st) (3 * (m_nodeIds e ! 3) + j))))"
proof (intro conjI impI)
  show "isValidCoordinate e c \<longleftrightarrow> vsize c = 4 \<and> \<bar>vsum c - Fin 1\<bar> < ScalarEpsilon"
    by (auto simp: isValidCoordinate_def)
next
  assume "\<not> isValidCoordinate e c"
  then show "computeCartesianCoordinate e st c = Inl AssertionFailure"
    by (simp add: computeCartesianCoordinate_def)
next
  assume valid: "isValidCoordinate e c"
    and range: "list_all (\<lambda>k. 3 * (m_nodeIds e ! k) + 3 \<le> vsize (positions st)) [0, 1, 2, 3]"
  then show "\<exists>p. computeCartesianCoordinate e st c = Inr p \<and> vsize p = 3 \<and>
         (\<forall>j. vcoeff p j =
            vcoeff c 0 * vcoeff (positions st) (3 * (m_nodeIds e ! 0) + j) +
            vcoeff c 1 * vcoeff (positions st) (3 * (m_nodeIds e ! 1) + j) +
            vcoeff c 2 * vcoeff (positions st) (3 * (m_nodeIds e ! 2) + j) +
            vcoeff c 3 * vcoeff (positions st) (3 * (m_nodeIds e ! 3) + j))"
    by (simp add: computeCartesianCoordinate_def getSubVector_def Let_def vplus_def smulv_def)
qed

theorem natural_coordinate_contract_witness:
  "isValidCoordinate unitTetrahedron centroid \<and>
   (\<exists>p. computeCartesianCoordinate unitTetrahedron fourNodeState centroid = Inr p \<and>
      vsize p = 3 \<and> vcoeff p 0 = Fin (1 / 4) \<and> vcoeff p 1 = Fin (1 / 4) \<and>
      vcoeff p 2 = Fin (1 / 4)) \<and>
   \<not> isValidCoordinate unitTetrahedron notNormalised \<and>
   computeCartesianCoordinate unitTetrahedron fourNodeState notNormalised = Inl AssertionFailure"
proof -
  note inst = natural_coordinate_contract [of unitTetrahedron centroid fourNodeState]
  note inst' = natural_coordinate_contract [of unitTetrahedron notNormalised fourNodeState]
  have range: "list_all (\<lambda>k. 3 * (m_nodeIds unitTetrahedron ! k) + 3
      \<le> vsize (positions fourNodeState)) [0, 1, 2, 3]"
    by (simp add: unitTetrahedron_def fourNodeState_def)
  from inst centroid_valid range obtain p where
    p: "computeCartesianCoordinate unitTetrahedron fourNodeState centroid = Inr p"
    and size: "vsize p = 3"
    and coeffs: "\<forall>j. vcoeff p j =
            vcoeff centroid 0 * vcoeff (positions fourNodeState) (3 * (m_nodeIds unitTetrahedron ! 0) + j) +
            vcoeff centroid 1 * vcoeff (positions fourNodeState) (3 * (m_nodeIds unitTetrahedron ! 1) + j) +
            vcoeff centroid 2 * vcoeff (positions fourNodeState) (3 * (m_nodeIds unitTetrahedron ! 2) + j) +
            vcoeff centroid 3 * vcoeff (positions fourNodeState) (3 * (m_nodeIds unitTetrahedron ! 3) + j)"
    by blast
  have "vcoeff p 0 = Fin (1 / 4)" "vcoeff p 1 = Fin (1 / 4)" "vcoeff p 2 = Fin (1 / 4)"
    by (simp_all add: coeffs centroid_def unitTetrahedron_def fourNodeState_def)
  with p size inst' notNormalised_invalid centroid_valid show ?thesis by blast
qed

subsection \<open>The Runge-Kutta 4 step\<close>







end
